theory Spec2Isabelle
  imports Complex_Main
begin

section \<open>A resistive-network model of a bryozoan colony (Bryozoan.py)\<close>

text \<open>
  The development embeds the class \<open>Colony\<close> of \<open>Bryozoan.py\<close> and the feedback
  law \<open>dCdt_default\<close>. Conventions of the embedding:
  \<^item> Python integers are \<open>int\<close>; NumPy float arrays are \<open>real list\<close>. Arithmetic on
    floats is the arithmetic of the reals: rounding, overflow and the IEEE values
    \<open>inf\<close> and \<open>nan\<close> are outside the model.
  \<^item> A raised exception is a value \<open>Inl e\<close> of a sum type.
  \<^item> A SciPy sparse matrix is its shape and its list of stored triples
    (row, column, value); stored triples with the same position add up, as they do
    when SciPy converts between formats.
  \<^item> The routines of NumPy and SciPy whose code is not part of the program (the power
    operator on floats, \<open>log\<close>, \<open>exp\<close>, the iterative solver \<open>bicgstab\<close> and the
    integrator \<open>ode\<close>) are parameters of the functions that call them.
\<close>

subsection \<open>Python values and exceptions\<close>

datatype pyerror = ValueError | TypeError | IndexError

text \<open>Items of the argument lists of the setter: Python numbers.\<close>

datatype pyval = PyInt int | PyFloat real

text \<open>An argument of the setter: a list, or a sequence that is not a \<open>list\<close>.\<close>

datatype pyarg = PyList "pyval list" | PyTuple "pyval list"

fun num_of :: "pyval \<Rightarrow> real" where
  "num_of (PyInt i) = real_of_int i"
| "num_of (PyFloat x) = x"

fun is_int :: "pyval \<Rightarrow> bool" where
  "is_int (PyInt i) = True"
| "is_int (PyFloat x) = False"

fun is_list :: "pyarg \<Rightarrow> bool" where
  "is_list (PyList xs) = True"
| "is_list (PyTuple xs) = False"

fun items :: "pyarg \<Rightarrow> pyval list" where
  "items (PyList xs) = xs"
| "items (PyTuple xs) = xs"

text \<open>
  Python's \<open>max\<close> and \<open>min\<close>: \<open>ValueError\<close> on an empty sequence, otherwise the first
  greatest (least) item.
\<close>

fun py_max :: "pyval list \<Rightarrow> pyerror + pyval" where
  "py_max [] = Inl ValueError"
| "py_max (x # xs) = Inr (fold (\<lambda>y best. if num_of y > num_of best then y else best) xs x)"

fun py_min :: "pyval list \<Rightarrow> pyerror + pyval" where
  "py_min [] = Inl ValueError"
| "py_min (x # xs) = Inr (fold (\<lambda>y best. if num_of y < num_of best then y else best) xs x)"

subsection \<open>NumPy index arrays\<close>

text \<open>
  \<open>arange(a, b, s)\<close> for a positive step: \<open>ceil((b - a) / s)\<close> items \<open>a + k * s\<close>.
  The program calls it with the steps 1, 2 and \<open>n\<close>.
\<close>

definition arange :: "int \<Rightarrow> int \<Rightarrow> int \<Rightarrow> int list" where
  "arange a b s = map (\<lambda>k. a + int k * s) [0 ..< nat ((b - a + s - 1) div s)]"

text \<open>
  \<open>delete(arr, idx)\<close>: the array without the positions listed in \<open>idx\<close>; a position
  outside the array raises \<open>IndexError\<close>, a negative one counts from the end.
\<close>

definition np_delete :: "'a list \<Rightarrow> int list \<Rightarrow> pyerror + 'a list" where
  "np_delete arr idx =
     (let n = int (length arr) in
      if list_all (\<lambda>i. - n \<le> i \<and> i < n) idx
      then Inr (map (\<lambda>k. arr ! k)
             (filter (\<lambda>k. int k \<notin> set idx \<and> int k - n \<notin> set idx) [0 ..< length arr]))
      else Inl IndexError)"

subsection \<open>Sparse matrices\<close>

record spmat =
  nrows :: nat
  ncols :: nat
  entries :: "(nat \<times> nat \<times> real) list"

text \<open>The number of stored entries; a COO matrix counts duplicates.\<close>

definition nnz :: "spmat \<Rightarrow> nat" where
  "nnz M = length (entries M)"

text \<open>
  \<open>coo_matrix((data, (rows, cols)), shape)\<close>: the three arrays must have one length
  and every index must lie inside the shape, else \<open>ValueError\<close>.
\<close>

definition coo_matrix :: "real list \<Rightarrow> int list \<Rightarrow> int list \<Rightarrow> int \<times> int \<Rightarrow> pyerror + spmat" where
  "coo_matrix data rows cols shape =
     (if length rows \<noteq> length data \<or> length cols \<noteq> length data then Inl ValueError
      else if fst shape < 0 \<or> snd shape < 0 then Inl ValueError
      else if list_all (\<lambda>r. 0 \<le> r \<and> r < fst shape) rows \<and>
              list_all (\<lambda>c. 0 \<le> c \<and> c < snd shape) cols
      then Inr \<lparr>nrows = nat (fst shape), ncols = nat (snd shape),
                entries = zip (map nat rows) (zip (map nat cols) data)\<rparr>
      else Inl ValueError)"

text \<open>The sum of two sparse matrices: shapes must agree.\<close>

definition sp_add :: "spmat \<Rightarrow> spmat \<Rightarrow> pyerror + spmat" where
  "sp_add A B =
     (if nrows A = nrows B \<and> ncols A = ncols B
      then Inr \<lparr>nrows = nrows A, ncols = ncols A, entries = entries A @ entries B\<rparr>
      else Inl ValueError)"

text \<open>\<open>sparse.diags(v, 0)\<close>: the square matrix with \<open>v\<close> on its main diagonal.\<close>

definition sp_diags :: "real list \<Rightarrow> spmat" where
  "sp_diags v = \<lparr>nrows = length v, ncols = length v,
                 entries = map (\<lambda>i. (i, i, v ! i)) [0 ..< length v]\<rparr>"

text \<open>\<open>sparse.vstack((A, B))\<close>: \<open>B\<close> below \<open>A\<close>; the column counts must agree.\<close>

definition sp_vstack :: "spmat \<Rightarrow> spmat \<Rightarrow> pyerror + spmat" where
  "sp_vstack A B =
     (if ncols A = ncols B
      then Inr \<lparr>nrows = nrows A + nrows B, ncols = ncols A,
                entries = entries A @ map (\<lambda>(r, c, v). (nrows A + r, c, v)) (entries B)\<rparr>
      else Inl ValueError)"

definition sp_transpose :: "spmat \<Rightarrow> spmat" where
  "sp_transpose A = \<lparr>nrows = ncols A, ncols = nrows A,
                     entries = map (\<lambda>(r, c, v). (c, r, v)) (entries A)\<rparr>"

text \<open>The product of two sparse matrices: the inner dimensions must agree.\<close>

definition sp_matmul :: "spmat \<Rightarrow> spmat \<Rightarrow> pyerror + spmat" where
  "sp_matmul A B =
     (if ncols A = nrows B
      then Inr \<lparr>nrows = nrows A, ncols = ncols B,
                entries = concat (map (\<lambda>(i, k, a).
                    map (\<lambda>(k', j, b). (i, j, a * b))
                      (filter (\<lambda>(k', j, b). k' = k) (entries B))) (entries A))\<rparr>
      else Inl ValueError)"

text \<open>The product of a sparse matrix and a column vector.\<close>

definition sp_matvec :: "spmat \<Rightarrow> real list \<Rightarrow> pyerror + real list" where
  "sp_matvec A x =
     (if ncols A = length x
      then Inr (map (\<lambda>i. sum_list (map (\<lambda>(r, c, v). v * x ! c)
                  (filter (\<lambda>(r, c, v). r = i) (entries A)))) [0 ..< nrows A])
      else Inl ValueError)"

text \<open>The entry of the matrix at a position: the sum of the triples stored there.\<close>

definition sp_entry :: "spmat \<Rightarrow> nat \<Rightarrow> nat \<Rightarrow> real" where
  "sp_entry A i j =
     sum_list (map (\<lambda>(r, c, v). v) (filter (\<lambda>(r, c, v). r = i \<and> c = j) (entries A)))"

subsection \<open>The feedback law\<close>

type_synonym params = "string \<rightharpoonup> real"

text \<open>
  An element-wise operation on two one-dimensional arrays, with NumPy's broadcasting:
  equal lengths, or one array of length one; anything else raises \<open>ValueError\<close>.
\<close>

definition np_binop :: "(real \<Rightarrow> real \<Rightarrow> real) \<Rightarrow> real list \<Rightarrow> real list \<Rightarrow> pyerror + real list" where
  "np_binop f xs ys =
     (if length xs = length ys then Inr (map2 f xs ys)
      else if length xs = 1 then Inr (map (\<lambda>y. f (hd xs) y) ys)
      else if length ys = 1 then Inr (map (\<lambda>x. f x (hd ys)) xs)
      else Inl ValueError)"

definition np_mul :: "real list \<Rightarrow> real list \<Rightarrow> pyerror + real list" where
  "np_mul = np_binop (*)"

text \<open>Element-wise division; a zero divisor (\<open>inf\<close> or \<open>nan\<close> in NumPy) is outside the model.\<close>

definition np_div :: "real list \<Rightarrow> real list \<Rightarrow> pyerror + real list" where
  "np_div = np_binop (/)"

text \<open>
  \<open>dCdt_default(Cs, dPs, params)\<close>. \<open>pw\<close> is the power operator of NumPy floats.
  \<open>params.get\<close> of a missing key is \<open>None\<close>, and arithmetic on \<open>None\<close> raises
  \<open>TypeError\<close>.
\<close>

definition dCdt_default ::
  "(real \<Rightarrow> real \<Rightarrow> real) \<Rightarrow> real list \<Rightarrow> real list \<Rightarrow> params \<Rightarrow> pyerror + (real list \<times> real list)" where
  "dCdt_default pw Cs dPs ps =
     (case ps ''b'' of None \<Rightarrow> Inl TypeError | Some b \<Rightarrow>
     (case ps ''z'' of None \<Rightarrow> Inl TypeError | Some z \<Rightarrow>
     (case np_mul (map (\<lambda>c. b * pw c z) Cs) dPs of Inl e \<Rightarrow> Inl e | Inr bd \<Rightarrow>
     (let S = map abs bd in
     (case ps ''r'' of None \<Rightarrow> Inl TypeError | Some r \<Rightarrow>
     (case ps ''q'' of None \<Rightarrow> Inl TypeError | Some q \<Rightarrow>
     (case np_mul (map (\<lambda>c. r * pw c q) Cs) (map (\<lambda>s. s - 1) S) of
        Inl e \<Rightarrow> Inl e
      | Inr dCdt \<Rightarrow> Inr (dCdt, S))))))))"

subsection \<open>The colony\<close>

type_synonym feedback = "real list \<Rightarrow> real list \<Rightarrow> pyerror + (real list \<times> real list)"

text \<open>
  The attributes of a \<open>Colony\<close> object that the solver, the setter and the integrator
  read or write. The layout coordinates (\<open>xs\<close>, \<open>ys\<close>, \<open>ysjig\<close>) and the matrices
  \<open>Adjacency\<close> and \<open>Laplacian\<close>, which only the plot reads, are left out.
  \<open>dCdt_inner\<close> and \<open>dCdt_outer\<close> are \<open>None\<close> or a function.
\<close>

record Colony =
  n :: int
  m :: int
  rowinds :: "int list"
  colinds :: "int list"
  InnerConduits :: "real list"
  UpperAdjacency :: spmat
  Incidence :: spmat
  OutflowConduits :: "real list"
  InFlow :: "real list"
  dCdt_inner :: "feedback option"
  dCdt_outer :: "feedback option"

text \<open>
  \<open>Colony.__init__\<close>: \<open>nz\<close> zooid columns give \<open>n = 2 * nz\<close> nodes per row, \<open>mz\<close>
  zooid rows give \<open>m = mz\<close> rows. The internal conduits are listed in three groups:
  every node to the next one of its row, the first node of every row to the last one,
  and every other node to the node ahead of it in the next row.
\<close>

definition Colony_init ::
  "int \<Rightarrow> int \<Rightarrow> real \<Rightarrow> real \<Rightarrow> real \<Rightarrow>
   (real list \<Rightarrow> real list \<Rightarrow> params \<Rightarrow> pyerror + (real list \<times> real list)) \<Rightarrow>
   params \<Rightarrow> params \<Rightarrow> pyerror + Colony" where
  "Colony_init nz mz InnerConductivity OutflowConductivity Incurrents dCdt
     dCdt_in_params dCdt_out_params =
     (let n = nz * 2; m = mz in
      case np_delete (arange 0 (m * n) 1) (arange (n - 1) (m * n) n) of
        Inl e \<Rightarrow> Inl e
      | Inr rowinds1 \<Rightarrow>
     (case np_delete (arange 1 (m * n + 1) 1) (arange (n - 1) (m * n) n) of
        Inl e \<Rightarrow> Inl e
      | Inr colinds1 \<Rightarrow>
     (let rowinds = (rowinds1 @ arange 0 ((m - 1) * n + 1) n) @ arange 1 ((m - 1) * n) 2;
          colinds = (colinds1 @ arange (n - 1) (m * n) n) @ arange n (m * n) 2 in
      case coo_matrix (replicate (length rowinds) 1) rowinds colinds (m * n, m * n) of
        Inl e \<Rightarrow> Inl e
      | Inr UA \<Rightarrow>
     (case coo_matrix (replicate (length rowinds) (- 1))
             (arange 0 (int (length rowinds)) 1) rowinds (int (nnz UA), n * m) of
        Inl e \<Rightarrow> Inl e
      | Inr tails \<Rightarrow>
     (case coo_matrix (replicate (length colinds) 1)
             (arange 0 (int (length colinds)) 1) colinds (int (length rowinds), n * m) of
        Inl e \<Rightarrow> Inl e
      | Inr heads \<Rightarrow>
     (case sp_add tails heads of
        Inl e \<Rightarrow> Inl e
      | Inr inc \<Rightarrow>
        Inr \<lparr>n = n, m = m, rowinds = rowinds, colinds = colinds,
             InnerConduits = replicate (length rowinds) InnerConductivity,
             UpperAdjacency = UA, Incidence = inc,
             OutflowConduits = replicate (nat (m * n)) OutflowConductivity,
             InFlow = replicate (nat (m * n)) Incurrents,
             dCdt_inner = Some (\<lambda>x y. dCdt x y dCdt_in_params),
             dCdt_outer = Some (\<lambda>x y. dCdt x y dCdt_out_params)\<rparr>))))))"

text \<open>
  The incidence matrix that \<open>solvecolony\<close> builds when the caller passes none: the
  incidence matrix of the internal conduits on top of one row per outflow conduit,
  with \<open>-1\<close> at the conduit's node.
\<close>

definition IncidenceFull_default :: "Colony \<Rightarrow> pyerror + spmat" where
  "IncidenceFull_default self =
     sp_vstack (Incidence self) (sp_diags (replicate (nat (m self * n self)) (- 1)))"

subsection \<open>The library routines\<close>

text \<open>
  \<open>bicgstab(A, b, x0)\<close> returns a vector and a convergence flag (0 on success), or
  raises. \<open>ode_integrate f y0 t0 t1\<close> stands for an \<open>ode\<close> object with right-hand
  side \<open>f\<close>, initial value \<open>y0\<close> at \<open>t0\<close> and integrator \<open>dopri5\<close>, asked to
  \<open>integrate(t1)\<close>: it returns a vector and what \<open>successful()\<close> would answer, or
  raises what \<open>f\<close> raises.
\<close>

record numlib =
  np_log :: "real \<Rightarrow> real"
  np_exp :: "real \<Rightarrow> real"
  bicgstab :: "spmat \<Rightarrow> real list \<Rightarrow> real list option \<Rightarrow> pyerror + (real list \<times> int)"
  ode_integrate :: "(real \<Rightarrow> real list \<Rightarrow> pyerror + real list) \<Rightarrow> real list \<Rightarrow> real \<Rightarrow> real
                    \<Rightarrow> pyerror + (real list \<times> bool)"

subsection \<open>The solver\<close>

text \<open>The keyword arguments that \<open>solvecolony\<close> reads, each \<open>None\<close> when absent.\<close>

record kwargs =
  kw_conductivityfull :: "real list option"
  kw_IncidenceFull :: "spmat option"
  kw_Pressures :: "real list option"

definition no_kwargs :: kwargs where
  "no_kwargs = \<lparr>kw_conductivityfull = None, kw_IncidenceFull = None, kw_Pressures = None\<rparr>"

text \<open>The dictionary \<open>networksols\<close>; an absent key is \<open>None\<close>.\<close>

record networksols =
  sol_Pressures :: "real list"
  sol_conductivityfull :: "real list"
  sol_IncidenceFull :: spmat
  sol_Flows :: "real list option"
  sol_S :: "real list option"
  sol_dCdt :: "real list option"

text \<open>The matrix of the linear system: \<open>transpose(A) * diags(C) * A\<close>, from the left.\<close>

definition system_matrix :: "spmat \<Rightarrow> real list \<Rightarrow> pyerror + spmat" where
  "system_matrix A C =
     (case sp_matmul (sp_transpose A) (sp_diags C) of
        Inl e \<Rightarrow> Inl e
      | Inr AtC \<Rightarrow> sp_matmul AtC A)"

text \<open>The flows \<open>diags(C) * A * p\<close>, from the left.\<close>

definition flows_of :: "spmat \<Rightarrow> real list \<Rightarrow> real list \<Rightarrow> pyerror + real list" where
  "flows_of A C p =
     (case sp_matmul (sp_diags C) A of
        Inl e \<Rightarrow> Inl e
      | Inr CA \<Rightarrow> sp_matvec CA p)"

text \<open>
  The last part of \<open>solvecolony\<close>: the pressure differences \<open>abs(A * p)\<close>, split at
  the number of internal conduits, and the two feedback functions applied to the
  two parts of the conductances.
\<close>

definition feedback_part ::
  "Colony \<Rightarrow> kwargs \<Rightarrow> spmat \<Rightarrow> real list \<Rightarrow> feedback \<Rightarrow> feedback
   \<Rightarrow> pyerror + (real list \<times> real list)" where
  "feedback_part self kw A p f_inner f_outer =
     (case sp_matvec A p of
        Inl e \<Rightarrow> Inl e
      | Inr Ap \<Rightarrow>
     (let dP = map abs Ap;
          k = length (InnerConduits self);
          dPinner = take k dP;
          dPouter = drop k dP;
          innerCs = (case kw_conductivityfull kw of
                       None \<Rightarrow> InnerConduits self | Some c \<Rightarrow> take k c);
          outerCs = (case kw_conductivityfull kw of
                       None \<Rightarrow> OutflowConduits self | Some c \<Rightarrow> drop k c) in
      case f_inner innerCs dPinner of
        Inl e \<Rightarrow> Inl e
      | Inr (dCdt_i, S_i) \<Rightarrow>
     (case f_outer outerCs dPouter of
        Inl e \<Rightarrow> Inl e
      | Inr (dCdt_o, S_o) \<Rightarrow> Inr (S_i @ S_o, dCdt_i @ dCdt_o))))"

text \<open>
  \<open>solvecolony(calcflows, calcdCdt, **kwargs)\<close>. The method assigns to no attribute
  of \<open>self\<close>; the colony it leaves behind is the second component of the result.
\<close>

definition solvecolony ::
  "numlib \<Rightarrow> bool \<Rightarrow> bool \<Rightarrow> kwargs \<Rightarrow> Colony \<Rightarrow> (pyerror + networksols) \<times> Colony" where
  "solvecolony lib calcflows calcdCdt kw self =
     (let conductivityfull = (case kw_conductivityfull kw of
                                None \<Rightarrow> InnerConduits self @ OutflowConduits self
                              | Some c \<Rightarrow> c) in
      case (case kw_IncidenceFull kw of
              None \<Rightarrow> IncidenceFull_default self | Some A \<Rightarrow> Inr A) of
        Inl e \<Rightarrow> (Inl e, self)
      | Inr A \<Rightarrow>
     (case system_matrix A conductivityfull of
        Inl e \<Rightarrow> (Inl e, self)
      | Inr L \<Rightarrow>
     (case bicgstab lib L (InFlow self) (kw_Pressures kw) of
        Inl e \<Rightarrow> (Inl e, self)
      | Inr (p, info) \<Rightarrow>
     (case (if calcflows then map_sum id Some (flows_of A conductivityfull p)
            else Inr None) of
        Inl e \<Rightarrow> (Inl e, self)
      | Inr fl \<Rightarrow>
     (case (if calcdCdt \<and> dCdt_inner self \<noteq> None \<and> dCdt_outer self \<noteq> None
            then map_sum id (\<lambda>(s, d). (Some s, Some d))
                   (feedback_part self kw A p (the (dCdt_inner self)) (the (dCdt_outer self)))
            else Inr (None, None)) of
        Inl e \<Rightarrow> (Inl e, self)
      | Inr (s, d) \<Rightarrow>
          (Inr \<lparr>sol_Pressures = p, sol_conductivityfull = conductivityfull,
                sol_IncidenceFull = A, sol_Flows = fl, sol_S = s, sol_dCdt = d\<rparr>,
           self))))))"

subsection \<open>The integrator\<close>

text \<open>
  The right-hand side \<open>dlnCdt\<close> that \<open>UpdateColony\<close> hands to the integrator;
  \<open>params\<close> is the result of the solve at the start. \<open>.get('dCdt')\<close> of a result
  without that key is \<open>None\<close>, and dividing \<open>None\<close> raises \<open>TypeError\<close>.
\<close>

definition dlnCdt ::
  "numlib \<Rightarrow> Colony \<Rightarrow> networksols \<Rightarrow> real \<Rightarrow> real list \<Rightarrow> pyerror + real list" where
  "dlnCdt lib self params t lnC0 =
     (let C0 = map (np_exp lib) lnC0 in
      case fst (solvecolony lib False True
                  \<lparr>kw_conductivityfull = Some C0,
                   kw_IncidenceFull = Some (sol_IncidenceFull params),
                   kw_Pressures = Some (sol_Pressures params)\<rparr> self) of
        Inl e \<Rightarrow> Inl e
      | Inr sols \<Rightarrow>
     (case sol_dCdt sols of
        None \<Rightarrow> Inl TypeError
      | Some dCdt \<Rightarrow> np_div dCdt C0))"

text \<open>
  \<open>UpdateColony(tmax)\<close>: the result, and the colony the call leaves behind.
\<close>

definition UpdateColony ::
  "numlib \<Rightarrow> real \<Rightarrow> Colony \<Rightarrow> (pyerror + real list) \<times> Colony" where
  "UpdateColony lib tmax self =
     (case solvecolony lib False False no_kwargs self of
        (Inl e, self') \<Rightarrow> (Inl e, self')
      | (Inr params, self') \<Rightarrow>
     (let lnC0 = map (np_log lib) (sol_conductivityfull params) in
      case ode_integrate lib (dlnCdt lib self' params) lnC0 0 tmax of
        Inl e \<Rightarrow> (Inl e, self')
      | Inr (y, ok) \<Rightarrow> (Inr (map (np_exp lib) y), self')))"

subsection \<open>The setter of the outflow conductances\<close>

datatype message =
  MustBeLists | LengthsMustMatch | IndexAboveMN | IndexBelowZero | IndexNotInt
  | ConductivityNegative

text \<open>
  What a call of the setter does besides changing the colony: it returns after the
  update, or prints a message and returns, or raises.
\<close>

datatype outcome = Updated | NoAction message | Raised pyerror

text \<open>
  The assignment loop \<open>self.OutflowConduits[nodeinds[k]] = NewOuterConductivities[k]\<close>.
  An index outside the array raises \<open>IndexError\<close>; the assignments made before it
  stay.
\<close>

fun assign_loop :: "pyval list \<Rightarrow> pyval list \<Rightarrow> real list \<Rightarrow> pyerror option \<times> real list" where
  "assign_loop [] vs arr = (None, arr)"
| "assign_loop (i # is) [] arr = (Some IndexError, arr)"
| "assign_loop (PyFloat x # is) (v # vs) arr = (Some IndexError, arr)"
| "assign_loop (PyInt k # is) (v # vs) arr =
     (let len = int (length arr); j = (if k < 0 then k + len else k) in
      if 0 \<le> j \<and> j < len then assign_loop is vs (arr[nat j := num_of v])
      else (Some IndexError, arr))"

definition setouterconductivities :: "pyarg \<Rightarrow> pyarg \<Rightarrow> Colony \<Rightarrow> outcome \<times> Colony" where
  "setouterconductivities nodeinds NewOuterConductivities self =
     (if \<not> (is_list NewOuterConductivities \<and> is_list nodeinds)
      then (NoAction MustBeLists, self)
      else if length (items NewOuterConductivities) \<noteq> length (items nodeinds)
      then (NoAction LengthsMustMatch, self)
      else (case py_max (items nodeinds) of
        Inl e \<Rightarrow> (Raised e, self)
      | Inr mx \<Rightarrow>
      if num_of mx > real_of_int (m self * n self)
      then (NoAction IndexAboveMN, self)
      else (case py_min (items nodeinds) of
        Inl e \<Rightarrow> (Raised e, self)
      | Inr mn \<Rightarrow>
      if num_of mn < 0
      then (NoAction IndexBelowZero, self)
      else if list_ex (\<lambda>item. \<not> is_int item) (items nodeinds)
      then (NoAction IndexNotInt, self)
      else if list_ex (\<lambda>item. num_of item < 0) (items NewOuterConductivities)
      then (NoAction ConductivityNegative, self)
      else (case assign_loop (items nodeinds) (items NewOuterConductivities)
                   (OutflowConduits self) of
        (None, arr) \<Rightarrow> (Updated, self\<lparr>OutflowConduits := arr\<rparr>)
      | (Some e, arr) \<Rightarrow> (Raised e, self\<lparr>OutflowConduits := arr\<rparr>)))))"

subsection \<open>Stand-ins for the library routines\<close>

text \<open>
  The theorems below hold for every value of the library parameters. To run the
  model at a concrete input, the parameters need concrete values:
  \<^item> \<open>two_node_solver\<close> solves a system of two equations exactly and reports
    flag 0; when the matrix is singular it gives back the starting vector (zeros
    when there is none) with a nonzero flag, as an iterative solver that breaks down
    does;
  \<^item> \<open>one_step_ode\<close> takes one explicit Euler step over the whole interval;
  \<^item> \<open>stalled_ode\<close> evaluates the right-hand side once, gives back the initial
    value and reports failure.
\<close>

definition two_node_solver ::
  "spmat \<Rightarrow> real list \<Rightarrow> real list option \<Rightarrow> pyerror + (real list \<times> int)" where
  "two_node_solver A b x0 =
     (let a00 = sp_entry A 0 0; a01 = sp_entry A 0 1;
          a10 = sp_entry A 1 0; a11 = sp_entry A 1 1;
          det = a00 * a11 - a01 * a10 in
      if nrows A \<noteq> 2 \<or> ncols A \<noteq> 2 \<or> length b \<noteq> 2 then Inl ValueError
      else if det = 0 then Inr (case x0 of None \<Rightarrow> [0, 0] | Some x \<Rightarrow> x, - 11)
      else Inr ([(b ! 0 * a11 - a01 * b ! 1) / det, (a00 * b ! 1 - a10 * b ! 0) / det], 0))"

definition one_step_ode ::
  "(real \<Rightarrow> real list \<Rightarrow> pyerror + real list) \<Rightarrow> real list \<Rightarrow> real \<Rightarrow> real
   \<Rightarrow> pyerror + (real list \<times> bool)" where
  "one_step_ode f y0 t0 t1 =
     (case f t0 y0 of
        Inl e \<Rightarrow> Inl e
      | Inr k \<Rightarrow> Inr (map2 (\<lambda>y d. y + (t1 - t0) * d) y0 k, True))"

definition stalled_ode ::
  "(real \<Rightarrow> real list \<Rightarrow> pyerror + real list) \<Rightarrow> real list \<Rightarrow> real \<Rightarrow> real
   \<Rightarrow> pyerror + (real list \<times> bool)" where
  "stalled_ode f y0 t0 t1 =
     (case f t0 y0 of
        Inl e \<Rightarrow> Inl e
      | Inr k \<Rightarrow> Inr (y0, False))"

definition ideal_lib :: numlib where
  "ideal_lib = \<lparr>np_log = ln, np_exp = exp, bicgstab = two_node_solver,
                ode_integrate = one_step_ode\<rparr>"

definition stalled_lib :: numlib where
  "stalled_lib = \<lparr>np_log = ln, np_exp = exp, bicgstab = two_node_solver,
                  ode_integrate = stalled_ode\<rparr>"

text \<open>A parameter set with \<open>S = abs(dP)\<close> and \<open>dC/dt = S - 1\<close>.\<close>

definition unit_params :: params where
  "unit_params = [''z'' \<mapsto> 0, ''b'' \<mapsto> 1, ''r'' \<mapsto> 1, ''q'' \<mapsto> 0]"

text \<open>
  The smallest colony, \<open>Colony(nz=1, mz=1, InnerConductivity=ci,
  OutflowConductivity=co, Incurrents=q, dCdt_in_params=pin, dCdt_out_params=pout)\<close>,
  with the default feedback law.
\<close>

definition one_zooid :: "real \<Rightarrow> real \<Rightarrow> real \<Rightarrow> params \<Rightarrow> params \<Rightarrow> Colony" where
  "one_zooid ci co q pin pout =
     projr (Colony_init 1 1 ci co q (dCdt_default (powr)) pin pout)"

subsection \<open>The right-hand side as the specification describes it\<close>

text \<open>
  The specification describes the right-hand side of the integration as reusing the
  pressures of the reference solve: the pressure differences are those of the
  reference pressures across the reference incidence matrix, and only the
  conductances handed to the feedback law change. \<open>dlnCdt_frozen\<close> is that
  description, to be compared with \<open>dlnCdt\<close>, which is the program's.
\<close>

definition dlnCdt_frozen ::
  "numlib \<Rightarrow> Colony \<Rightarrow> networksols \<Rightarrow> real \<Rightarrow> real list \<Rightarrow> pyerror + real list" where
  "dlnCdt_frozen lib self params t lnC0 =
     (let C0 = map (np_exp lib) lnC0 in
      if dCdt_inner self \<noteq> None \<and> dCdt_outer self \<noteq> None
      then (case feedback_part self
                   \<lparr>kw_conductivityfull = Some C0,
                    kw_IncidenceFull = Some (sol_IncidenceFull params),
                    kw_Pressures = Some (sol_Pressures params)\<rparr>
                   (sol_IncidenceFull params) (sol_Pressures params)
                   (the (dCdt_inner self)) (the (dCdt_outer self)) of
              Inl e \<Rightarrow> Inl e
            | Inr (S, dCdt) \<Rightarrow> np_div dCdt C0)
      else Inl TypeError)"

section \<open>The lattice\<close>

subsection \<open>Index arrays\<close>

lemma length_arange: "length (arange a b s) = nat ((b - a + s - 1) div s)"
  by (simp add: arange_def)

lemma arange_bounds:
  assumes "0 < s" and "x \<in> set (arange a b s)"
  shows "a \<le> x \<and> x < b"
proof -
  from assms(2) obtain k where k: "k < nat ((b - a + s - 1) div s)" and x: "x = a + int k * s"
    by (auto simp: arange_def)
  define q where "q = b - a + s - 1"
  from k have "int k + 1 \<le> q div s" unfolding q_def by linarith
  then have "(int k + 1) * s \<le> (q div s) * s"
    using assms(1) by (simp add: mult_right_mono)
  also have "\<dots> = q - q mod s" by (simp add: minus_mod_eq_div_mult)
  also have "\<dots> \<le> q" using assms(1) by simp
  finally have "int k * s \<le> b - a - 1" unfolding q_def by (simp add: algebra_simps)
  with x assms(1) show ?thesis by auto
qed

lemma nth_arange: "k < length (arange a b s) \<Longrightarrow> arange a b s ! k = a + int k * s"
  by (simp add: arange_def)

lemma np_delete_nonneg:
  assumes "\<forall>i\<in>set idx. 0 \<le> i \<and> i < int (length arr)"
  shows "np_delete arr idx =
           Inr (map (\<lambda>k. arr ! k) (filter (\<lambda>k. int k \<notin> set idx) [0 ..< length arr]))"
proof -
  have all: "list_all (\<lambda>i. - int (length arr) \<le> i \<and> i < int (length arr)) idx"
    using assms by (auto simp: list_all_iff)
  have "filter (\<lambda>k. int k \<notin> set idx \<and> int k - int (length arr) \<notin> set idx) [0 ..< length arr]
        = filter (\<lambda>k. int k \<notin> set idx) [0 ..< length arr]"
    using assms by (intro filter_cong) auto
  with all show ?thesis by (simp add: np_delete_def Let_def)
qed

lemma coo_matrix_ok:
  assumes "length rows = length data" "length cols = length data" "0 \<le> r" "0 \<le> c"
    and "\<forall>x\<in>set rows. 0 \<le> x \<and> x < r" and "\<forall>x\<in>set cols. 0 \<le> x \<and> x < c"
  shows "coo_matrix data rows cols (r, c) =
           Inr \<lparr>nrows = nat r, ncols = nat c,
                entries = zip (map nat rows) (zip (map nat cols) data)\<rparr>"
  using assms by (simp add: coo_matrix_def list_all_iff)

lemma arange_last_of_rows:
  assumes "0 < (nn::int)" "0 < mm"
  shows "mm * nn - 1 \<in> set (arange (nn - 1) (mm * nn) nn)"
proof -
  have len: "length (arange (nn - 1) (mm * nn) nn) = nat mm"
    using assms by (simp add: length_arange algebra_simps)
  have "nat (mm - 1) < length (arange (nn - 1) (mm * nn) nn)"
    using assms len by simp
  moreover from this have "arange (nn - 1) (mm * nn) nn ! nat (mm - 1) = mm * nn - 1"
    using assms by (simp add: nth_arange algebra_simps)
  ultimately show ?thesis by (metis nth_mem)
qed

lemma arange_unit_nth: "k < nat (b - a) \<Longrightarrow> arange a b 1 ! k = a + int k"
  by (simp add: arange_def)

lemma length_arange_unit: "length (arange a b 1) = nat (b - a)"
  by (simp add: arange_def)

lemma Colony_init_ok:
  assumes nz: "0 < nz" and mz: "0 < mz"
  shows "\<exists>c. Colony_init nz mz ci co q f pin pout = Inr c \<and>
             n c = nz * 2 \<and> m c = mz \<and>
             length (colinds c) = length (rowinds c) \<and>
             InnerConduits c = replicate (length (rowinds c)) ci \<and>
             nrows (Incidence c) = length (rowinds c) \<and>
             ncols (Incidence c) = nat (mz * (nz * 2)) \<and>
             OutflowConduits c = replicate (nat (mz * (nz * 2))) co \<and>
             InFlow c = replicate (nat (mz * (nz * 2))) q"
proof -
  let ?n = "nz * 2"
  let ?N = "mz * (nz * 2)"
  let ?D = "arange (?n - 1) ?N ?n"
  have n_pos: "0 < ?n" using nz by simp
  have N_pos: "0 < ?N" using nz mz by simp
  have D: "\<forall>i\<in>set ?D. 0 \<le> i \<and> i < ?N"
    using arange_bounds [OF n_pos, of _ "?n - 1" ?N] nz by fastforce
  have lastD: "?N - 1 \<in> set ?D"
    using arange_last_of_rows [OF n_pos mz] by simp
  define keep where "keep = filter (\<lambda>k. int k \<notin> set ?D) [0 ..< nat ?N]"
  define r1 where "r1 = map (\<lambda>k. arange 0 ?N 1 ! k) keep"
  define c1 where "c1 = map (\<lambda>k. arange 1 (?N + 1) 1 ! k) keep"
  have Dr: "\<forall>i\<in>set ?D. 0 \<le> i \<and> i < int (length (arange 0 ?N 1))"
    using D N_pos by (simp add: length_arange_unit)
  have Dc: "\<forall>i\<in>set ?D. 0 \<le> i \<and> i < int (length (arange 1 (?N + 1) 1))"
    using D N_pos by (simp add: length_arange_unit)
  have del_r: "np_delete (arange 0 ?N 1) ?D = Inr r1"
    using np_delete_nonneg [OF Dr] by (simp add: length_arange_unit r1_def keep_def)
  have del_c: "np_delete (arange 1 (?N + 1) 1) ?D = Inr c1"
    using np_delete_nonneg [OF Dc] by (simp add: length_arange_unit c1_def keep_def)
  have keep_lt: "\<forall>k\<in>set keep. k < nat ?N \<and> int k \<noteq> ?N - 1"
    using lastD by (auto simp: keep_def)
  have r1b: "\<forall>x\<in>set r1. 0 \<le> x \<and> x < ?N"
    using keep_lt by (auto simp: r1_def arange_unit_nth)
  have c1b: "\<forall>x\<in>set c1. 0 \<le> x \<and> x < ?N"
  proof
    fix x assume "x \<in> set c1"
    then obtain k where k: "k \<in> set keep" and x: "x = arange 1 (?N + 1) 1 ! k"
      by (auto simp: c1_def)
    from k keep_lt have "k < nat ?N" "int k \<noteq> ?N - 1" by auto
    then show "0 \<le> x \<and> x < ?N" using x by (simp add: arange_unit_nth)
  qed
  let ?r2 = "arange 0 ((mz - 1) * ?n + 1) ?n"
  let ?c2 = "arange (?n - 1) ?N ?n"
  let ?r3 = "arange 1 ((mz - 1) * ?n) 2"
  let ?c3 = "arange ?n ?N 2"
  have len2: "length ?c2 = length ?r2"
    using nz mz by (simp add: length_arange algebra_simps)
  have len3: "length ?c3 = length ?r3"
  proof -
    have "(?N - ?n + 2 - 1) div 2 = (mz - 1) * nz" by (simp add: algebra_simps)
    moreover have "((mz - 1) * ?n - 1 + 2 - 1) div 2 = (mz - 1) * nz" by (simp add: algebra_simps)
    ultimately show ?thesis by (simp only: length_arange)
  qed
  have r2b: "\<forall>x\<in>set ?r2. 0 \<le> x \<and> x < ?N"
  proof
    fix x assume "x \<in> set ?r2"
    from arange_bounds [OF n_pos this] have "0 \<le> x" "x < (mz - 1) * ?n + 1" by auto
    moreover have "(mz - 1) * ?n + 1 \<le> ?N" using nz by (simp add: algebra_simps)
    ultimately show "0 \<le> x \<and> x < ?N" by linarith
  qed
  have r3b: "\<forall>x\<in>set ?r3. 0 \<le> x \<and> x < ?N"
  proof
    fix x assume "x \<in> set ?r3"
    from arange_bounds [OF _ this] have "1 \<le> x" "x < (mz - 1) * ?n" by auto
    moreover have "(mz - 1) * ?n \<le> ?N" using nz by (simp add: algebra_simps)
    ultimately show "0 \<le> x \<and> x < ?N" by linarith
  qed
  have c3b: "\<forall>x\<in>set ?c3. 0 \<le> x \<and> x < ?N"
  proof
    fix x assume "x \<in> set ?c3"
    from arange_bounds [OF _ this] have "?n \<le> x" "x < ?N" by auto
    then show "0 \<le> x \<and> x < ?N" using n_pos by linarith
  qed
  define rows where "rows = (r1 @ ?r2) @ ?r3"
  define cols where "cols = (c1 @ ?c2) @ ?c3"
  have lens: "length cols = length rows"
    using len2 len3 by (simp add: rows_def cols_def r1_def c1_def)
  have rb: "\<forall>x\<in>set rows. 0 \<le> x \<and> x < ?N"
    using r1b r2b r3b by (auto simp: rows_def)
  have cb: "\<forall>x\<in>set cols. 0 \<le> x \<and> x < ?N"
    using c1b D c3b by (auto simp: cols_def)
  define UA where "UA = \<lparr>nrows = nat ?N, ncols = nat ?N,
      entries = zip (map nat rows) (zip (map nat cols) (replicate (length rows) 1))\<rparr>"
  have ua: "coo_matrix (replicate (length rows) 1) rows cols (?N, ?N) = Inr UA"
    unfolding UA_def using lens rb cb N_pos by (intro coo_matrix_ok) simp_all
  have nnz_ua: "nnz UA = length rows"
    using lens by (simp add: nnz_def UA_def)
  have ib: "\<forall>x\<in>set (arange 0 (int (length rows)) 1). 0 \<le> x \<and> x < int (length rows)"
    using arange_bounds [of 1 _ 0 "int (length rows)"] by auto
  define tails where "tails = \<lparr>nrows = nat (int (length rows)), ncols = nat (?n * mz),
      entries = zip (map nat (arange 0 (int (length rows)) 1))
                  (zip (map nat rows) (replicate (length rows) (- 1)))\<rparr>"
  have tl: "coo_matrix (replicate (length rows) (- 1)) (arange 0 (int (length rows)) 1) rows
              (int (nnz UA), ?n * mz) = Inr tails"
    unfolding tails_def nnz_ua using rb ib N_pos
    by (intro coo_matrix_ok) (simp_all add: length_arange_unit mult.commute)
  define heads where "heads = \<lparr>nrows = nat (int (length rows)), ncols = nat (?n * mz),
      entries = zip (map nat (arange 0 (int (length cols)) 1))
                  (zip (map nat cols) (replicate (length cols) 1))\<rparr>"
  have hd: "coo_matrix (replicate (length cols) 1) (arange 0 (int (length cols)) 1) cols
              (int (length rows), ?n * mz) = Inr heads"
    unfolding heads_def using cb ib N_pos lens
    by (intro coo_matrix_ok) (simp_all add: length_arange_unit mult.commute)
  define inc where "inc = \<lparr>nrows = nrows tails, ncols = ncols tails,
      entries = entries tails @ entries heads\<rparr>"
  have add: "sp_add tails heads = Inr inc"
    by (simp add: sp_add_def inc_def tails_def heads_def)
  have "Colony_init nz mz ci co q f pin pout =
          Inr \<lparr>n = ?n, m = mz, rowinds = rows, colinds = cols,
               InnerConduits = replicate (length rows) ci,
               UpperAdjacency = UA, Incidence = inc,
               OutflowConduits = replicate (nat ?N) co,
               InFlow = replicate (nat ?N) q,
               dCdt_inner = Some (\<lambda>x y. f x y pin),
               dCdt_outer = Some (\<lambda>x y. f x y pout)\<rparr>"
    unfolding Colony_init_def Let_def del_r del_c sum.case
      rows_def [symmetric] cols_def [symmetric] ua tl hd add
    by (rule refl)
  then show ?thesis
    using lens by (simp add: inc_def tails_def mult.commute)
qed


text \<open>
  C7. A lattice of \<open>nz\<close> by \<open>mz\<close> zooids, both positive, is built without an
  exception; it has \<open>m * n = 2 * nz * mz\<close> nodes, one outflow conductance per node,
  and the incidence matrix that the solver extends with the outflow conduits has
  one row per internal conduit plus one per node, and one column per node.
\<close>

theorem lattice_counts:
  assumes "0 < nz" and "0 < mz"
  shows "\<exists>c F. Colony_init nz mz ci co q f pin pout = Inr c \<and>
           m c * n c = 2 * nz * mz \<and>
           int (length (InFlow c)) = 2 * nz * mz \<and>
           int (length (OutflowConduits c)) = 2 * nz * mz \<and>
           IncidenceFull_default c = Inr F \<and>
           int (nrows F) = int (length (InnerConduits c)) + 2 * nz * mz \<and>
           int (ncols F) = 2 * nz * mz"
proof -
  from Colony_init_ok [OF assms, of ci co q f pin pout] obtain c where
    c: "Colony_init nz mz ci co q f pin pout = Inr c" "n c = nz * 2" "m c = mz"
       "InnerConduits c = replicate (length (rowinds c)) ci"
       "nrows (Incidence c) = length (rowinds c)"
       "ncols (Incidence c) = nat (mz * (nz * 2))"
       "OutflowConduits c = replicate (nat (mz * (nz * 2))) co"
       "InFlow c = replicate (nat (mz * (nz * 2))) q"
    by blast
  have pos: "0 \<le> mz * (nz * 2)" using assms by simp
  let ?F = "\<lparr>nrows = length (rowinds c) + nat (mz * (nz * 2)), ncols = nat (mz * (nz * 2)),
             entries = entries (Incidence c) @
               map (\<lambda>(r, c', v). (nrows (Incidence c) + r, c', v))
                 (entries (sp_diags (replicate (nat (mz * (nz * 2))) (- 1))))\<rparr>"
  have F: "IncidenceFull_default c = Inr ?F"
    using c by (simp add: IncidenceFull_default_def sp_vstack_def sp_diags_def)
  show ?thesis
    using c F pos by (intro exI [of _ c] exI [of _ ?F]) (simp add: algebra_simps)
qed

theorem lattice_counts_witness:
  "(0::int) < 6 \<and> (0::int) < 7 \<and>
   (\<exists>c F. Colony_init 6 7 1 (1 / 10) (- 1) (dCdt_default (powr)) unit_params unit_params = Inr c \<and>
      m c * n c = 84 \<and> int (length (InFlow c)) = 84 \<and>
      int (length (OutflowConduits c)) = 84 \<and>
      IncidenceFull_default c = Inr F \<and>
      int (nrows F) = int (length (InnerConduits c)) + 84 \<and> int (ncols F) = 84)"
  using lattice_counts [of 6 7 1 "1 / 10" "- 1" "dCdt_default (powr)" unit_params unit_params]
  by simp

section \<open>The feedback law\<close>

lemma np_binop_same_length:
  "length xs = length ys \<Longrightarrow> np_binop f xs ys = Inr (map2 f xs ys)"
  by (simp add: np_binop_def)

lemma dCdt_default_ok:
  assumes len: "length Cs = length dPs"
    and keys: "ps ''r'' = Some r" "ps ''b'' = Some b" "ps ''z'' = Some z" "ps ''q'' = Some q"
  shows "dCdt_default pw Cs dPs ps =
           Inr (map2 (\<lambda>c d. r * pw c q * (\<bar>b * pw c z * d\<bar> - 1)) Cs dPs,
                map2 (\<lambda>c d. \<bar>b * pw c z * d\<bar>) Cs dPs)"
proof -
  define bd where "bd = map2 (*) (map (\<lambda>c. b * pw c z) Cs) dPs"
  define S where "S = map abs bd"
  define dC where "dC = map2 (*) (map (\<lambda>c. r * pw c q) Cs) (map (\<lambda>s. s - 1) S)"
  have 1: "np_mul (map (\<lambda>c. b * pw c z) Cs) dPs = Inr bd"
    using len by (simp add: np_mul_def np_binop_same_length bd_def)
  have lenS: "length S = length Cs"
    using len by (simp add: S_def bd_def)
  have 2: "np_mul (map (\<lambda>c. r * pw c q) Cs) (map (\<lambda>s. s - 1) S) = Inr dC"
    using lenS by (simp add: np_mul_def np_binop_same_length dC_def)
  have eq: "dCdt_default pw Cs dPs ps = Inr (dC, S)"
    unfolding dCdt_default_def keys option.case 1 sum.case Let_def S_def [symmetric] 2
    by (rule refl)
  have S': "S = map2 (\<lambda>c d. \<bar>b * pw c z * d\<bar>) Cs dPs"
    using len by (simp add: S_def bd_def list_eq_iff_nth_eq)
  have dC': "dC = map2 (\<lambda>c d. r * pw c q * (\<bar>b * pw c z * d\<bar> - 1)) Cs dPs"
    using len lenS by (simp add: dC_def S' list_eq_iff_nth_eq)
  show ?thesis using eq S' dC' by simp
qed

text \<open>
  C2. The default feedback law is element-wise: it raises nothing when the two
  arrays have one length and the four parameters are present, and then entry \<open>i\<close>
  of the stimulus is \<open>abs(b * C[i] ** z * dP[i])\<close> and entry \<open>i\<close> of the rate is
  \<open>r * C[i] ** q * (S[i] - 1)\<close>.
\<close>

theorem feedback_law_elementwise:
  assumes "length Cs = length dPs"
    and "ps ''r'' = Some r" "ps ''b'' = Some b" "ps ''z'' = Some z" "ps ''q'' = Some q"
  shows "\<exists>dC S. dCdt_default pw Cs dPs ps = Inr (dC, S) \<and>
           length S = length Cs \<and> length dC = length Cs \<and>
           (\<forall>i<length Cs. S ! i = \<bar>b * pw (Cs ! i) z * dPs ! i\<bar> \<and>
                            dC ! i = r * pw (Cs ! i) q * (S ! i - 1))"
  using assms(1) by (simp add: dCdt_default_ok [OF assms])

lemma unit_params_keys:
  "unit_params ''r'' = Some 1" "unit_params ''b'' = Some 1"
  "unit_params ''z'' = Some 0" "unit_params ''q'' = Some 0"
  by (simp_all add: unit_params_def)

theorem feedback_law_elementwise_witness:
  "length [1, 4 :: real] = length [3, - 1 / 2 :: real] \<and>
   unit_params ''r'' = Some 1 \<and> unit_params ''b'' = Some 1 \<and>
   unit_params ''z'' = Some 0 \<and> unit_params ''q'' = Some 0 \<and>
   (\<exists>dC S. dCdt_default (powr) [1, 4] [3, - 1 / 2] unit_params = Inr (dC, S) \<and>
      length S = 2 \<and> length dC = 2 \<and>
      S ! 0 = 3 \<and> dC ! 0 = 2 \<and> S ! 1 = 1 / 2 \<and> dC ! 1 = - 1 / 2)"
proof -
  from feedback_law_elementwise [of "[1, 4]" "[3, - 1 / 2]" unit_params 1 1 0 0 "(powr)"]
  obtain dC S where
    r: "dCdt_default (powr) [1, 4] [3, - 1 / 2] unit_params = Inr (dC, S)"
       "length S = 2" "length dC = 2"
       "\<forall>i<2. S ! i = \<bar>1 * ([1, 4 :: real] ! i) powr 0 * [3, - 1 / 2] ! i\<bar> \<and>
               dC ! i = 1 * ([1, 4 :: real] ! i) powr 0 * (S ! i - 1)"
    by (auto simp: unit_params_keys)
  from r(4) have "S ! 0 = 3 \<and> dC ! 0 = 2" by (drule_tac x = 0 in spec) simp
  moreover from r(4) have "S ! 1 = 1 / 2 \<and> dC ! 1 = - 1 / 2"
    by (drule_tac x = 1 in spec) simp
  ultimately show ?thesis using r(1-3) by (simp add: unit_params_keys)
qed

section \<open>The colony of one zooid\<close>

text \<open>
  The smallest lattice, \<open>Colony(nz=1, mz=1)\<close>: two nodes, and two internal
  conduits that both join node 0 to node 1 (the neighbour in the row and the
  wrap-around conduit of the row coincide).
\<close>

lemma init_1_1:
  "Colony_init 1 1 ci co q f pin pout =
     Inr \<lparr>n = 2, m = 1, rowinds = [0, 0], colinds = [1, 1],
          InnerConduits = [ci, ci],
          UpperAdjacency = \<lparr>nrows = 2, ncols = 2, entries = [(0, 1, 1), (0, 1, 1)]\<rparr>,
          Incidence = \<lparr>nrows = 2, ncols = 2,
                       entries = [(0, 0, - 1), (1, 0, - 1), (0, 1, 1), (1, 1, 1)]\<rparr>,
          OutflowConduits = [co, co], InFlow = [q, q],
          dCdt_inner = Some (\<lambda>x y. f x y pin), dCdt_outer = Some (\<lambda>x y. f x y pout)\<rparr>"
  by (simp add: Colony_init_def arange_def np_delete_def coo_matrix_def sp_add_def nnz_def
        upt_rec numeral_2_eq_2 Let_def)

section \<open>Properties of the setter\<close>

text \<open>
  C10. The call \<open>setouterconductivities([], [])\<close> passes the list and length checks
  and then raises \<open>ValueError\<close> from \<open>max\<close> of an empty sequence: it neither
  updates the colony nor prints one of the messages.
\<close>

theorem setter_empty_lists_raise:
  "setouterconductivities (PyList []) (PyList []) self = (Raised ValueError, self)"
  by (simp add: setouterconductivities_def)

text \<open>
  C4. The check of the largest index is \<open>max(nodeinds) > self.m*self.n\<close>, so the
  index \<open>m * n\<close>, one past the last node, passes every check. On the colony of one
  zooid (two nodes) the call \<open>setouterconductivities([0, 2], [5.0, 5.0])\<close> prints no
  message: the loop assigns the conductance of node 0 and then raises \<open>IndexError\<close>
  at index 2, leaving the outflow conductances partly updated.
\<close>

theorem setter_index_mn_partial_update:
  "\<exists>c. Colony_init 1 1 1 (1 / 10) (- 1) (dCdt_default (powr)) unit_params unit_params = Inr c \<and>
       OutflowConduits c = [1 / 10, 1 / 10] \<and> m c * n c = 2 \<and>
       setouterconductivities (PyList [PyInt 0, PyInt 2]) (PyList [PyFloat 5, PyFloat 5]) c
         = (Raised IndexError, c\<lparr>OutflowConduits := [5, 1 / 10]\<rparr>)"
  by (simp add: init_1_1 setouterconductivities_def)

section \<open>Frame properties\<close>

text \<open>
  Neither \<open>solvecolony\<close> nor \<open>UpdateColony\<close> assigns to an attribute of the colony,
  and the feedback functions are functions of their arguments.
\<close>

lemma snd_solvecolony: "snd (solvecolony lib calcflows calcdCdt kw self) = self"
  by (simp add: solvecolony_def Let_def split: sum.splits prod.splits)

text \<open>
  C9. \<open>UpdateColony\<close> leaves the colony as it found it, whatever the library routines
  return and whether it returns a vector or raises: every attribute, in particular
  \<open>InnerConduits\<close>, \<open>OutflowConduits\<close> and \<open>InFlow\<close>, is unchanged after the call.
\<close>

theorem UpdateColony_leaves_colony:
  "snd (UpdateColony lib tmax self) = self"
proof -
  obtain r c where rc: "solvecolony lib False False no_kwargs self = (r, c)"
    by (cases "solvecolony lib False False no_kwargs self")
  then have c: "c = self" using snd_solvecolony [of lib False False no_kwargs self] by simp
  show ?thesis
    by (simp add: UpdateColony_def rc c Let_def split: sum.splits prod.splits)
qed

section \<open>Properties of the solver\<close>

subsection \<open>Shapes\<close>

lemma system_matrix_dims:
  "system_matrix A C = Inr L \<Longrightarrow> nrows A = length C \<and> nrows L = ncols A \<and> ncols L = ncols A"
  by (auto simp: system_matrix_def sp_matmul_def sp_transpose_def sp_diags_def
      split: sum.splits if_splits)

lemma sp_matvec_length: "sp_matvec A p = Inr Ap \<Longrightarrow> length Ap = nrows A"
  by (auto simp: sp_matvec_def split: if_splits)

subsection \<open>What a solve that returns has done\<close>

lemma solvecolony_Inr:
  assumes "fst (solvecolony lib calcflows calcdCdt kw self) = Inr sols"
  shows "\<exists>A L info fl sd.
      (case kw_IncidenceFull kw of None \<Rightarrow> IncidenceFull_default self | Some A \<Rightarrow> Inr A) = Inr A \<and>
      system_matrix A (sol_conductivityfull sols) = Inr L \<and>
      bicgstab lib L (InFlow self) (kw_Pressures kw) = Inr (sol_Pressures sols, info) \<and>
      sol_conductivityfull sols =
        (case kw_conductivityfull kw of
           None \<Rightarrow> InnerConduits self @ OutflowConduits self | Some c \<Rightarrow> c) \<and>
      sol_IncidenceFull sols = A \<and>
      (if calcflows
       then map_sum id Some (flows_of A (sol_conductivityfull sols) (sol_Pressures sols))
       else Inr None) = Inr (sol_Flows sols) \<and>
      (if calcdCdt \<and> dCdt_inner self \<noteq> None \<and> dCdt_outer self \<noteq> None
       then map_sum id (\<lambda>(s, d). (Some s, Some d))
              (feedback_part self kw A (sol_Pressures sols)
                 (the (dCdt_inner self)) (the (dCdt_outer self)))
       else Inr (None, None)) = Inr (sol_S sols, sol_dCdt sols)"
  using assms unfolding solvecolony_def Let_def
  by (auto split: sum.splits prod.splits)

lemma solvecolony_returns:
  assumes "(case kw_IncidenceFull kw of None \<Rightarrow> IncidenceFull_default self | Some A \<Rightarrow> Inr A)
             = Inr A"
    and "C = (case kw_conductivityfull kw of
                None \<Rightarrow> InnerConduits self @ OutflowConduits self | Some c \<Rightarrow> c)"
    and "system_matrix A C = Inr L"
    and "bicgstab lib L (InFlow self) (kw_Pressures kw) = Inr (p, info)"
    and "(if calcflows then map_sum id Some (flows_of A C p) else Inr None) = Inr fl"
    and "(if calcdCdt \<and> dCdt_inner self \<noteq> None \<and> dCdt_outer self \<noteq> None
          then map_sum id (\<lambda>(s, d). (Some s, Some d))
                 (feedback_part self kw A p (the (dCdt_inner self)) (the (dCdt_outer self)))
          else Inr (None, None)) = Inr (s, d)"
  shows "solvecolony lib calcflows calcdCdt kw self =
           (Inr \<lparr>sol_Pressures = p, sol_conductivityfull = C, sol_IncidenceFull = A,
                 sol_Flows = fl, sol_S = s, sol_dCdt = d\<rparr>, self)"
  unfolding solvecolony_def Let_def assms(2) [symmetric] assms(1) sum.case assms(3) assms(4)
    prod.case assms(5) assms(6)
  by (rule refl)

subsection \<open>The feedback outputs\<close>

lemma nth_split_map2:
  assumes "length xs = length ys" and "i < length xs"
  shows "(map2 f (take k xs) (take k ys) @ map2 g (drop k xs) (drop k ys)) ! i =
           (if i < k then f (xs ! i) (ys ! i) else g (xs ! i) (ys ! i))"
  using assms by (auto simp: nth_append min_def)

lemma length_split_map2:
  assumes "length xs = length ys"
  shows "length (map2 f (take k xs) (take k ys) @ map2 g (drop k xs) (drop k ys)) = length xs"
  using assms by (auto simp: min_def)

lemma feedback_part_default:
  assumes Ap: "sp_matvec A p = Inr Ap"
    and len: "length Ap = length C"
    and C: "C = (case kw_conductivityfull kw of
                   None \<Rightarrow> InnerConduits self @ OutflowConduits self | Some c \<Rightarrow> c)"
    and kin: "pin ''r'' = Some ri" "pin ''b'' = Some bi" "pin ''z'' = Some zi" "pin ''q'' = Some qi"
    and kout: "pout ''r'' = Some ro" "pout ''b'' = Some bo" "pout ''z'' = Some zo"
      "pout ''q'' = Some qo"
  shows "feedback_part self kw A p
           (\<lambda>x y. dCdt_default pw x y pin) (\<lambda>x y. dCdt_default pw x y pout) =
         Inr (map2 (\<lambda>c d. \<bar>bi * pw c zi * d\<bar>)
                (take (length (InnerConduits self)) C)
                (take (length (InnerConduits self)) (map abs Ap)) @
              map2 (\<lambda>c d. \<bar>bo * pw c zo * d\<bar>)
                (drop (length (InnerConduits self)) C)
                (drop (length (InnerConduits self)) (map abs Ap)),
              map2 (\<lambda>c d. ri * pw c qi * (\<bar>bi * pw c zi * d\<bar> - 1))
                (take (length (InnerConduits self)) C)
                (take (length (InnerConduits self)) (map abs Ap)) @
              map2 (\<lambda>c d. ro * pw c qo * (\<bar>bo * pw c zo * d\<bar> - 1))
                (drop (length (InnerConduits self)) C)
                (drop (length (InnerConduits self)) (map abs Ap)))"
proof -
  define k where "k = length (InnerConduits self)"
  define dP where "dP = map abs Ap"
  define innerCs where "innerCs = (case kw_conductivityfull kw of
                       None \<Rightarrow> InnerConduits self | Some c \<Rightarrow> take k c)"
  define outerCs where "outerCs = (case kw_conductivityfull kw of
                       None \<Rightarrow> OutflowConduits self | Some c \<Rightarrow> drop k c)"
  have i: "innerCs = take k C" and o: "outerCs = drop k C"
    by (simp_all add: innerCs_def outerCs_def C k_def split: option.splits)
  have li: "length innerCs = length (take k dP)" and lo: "length outerCs = length (drop k dP)"
    using len by (simp_all add: i o dP_def)
  show ?thesis
    unfolding feedback_part_def Ap sum.case Let_def
      k_def [symmetric] dP_def [symmetric] innerCs_def [symmetric] outerCs_def [symmetric]
      dCdt_default_ok [OF li kin] dCdt_default_ok [OF lo kout] prod.case
    by (simp add: i o)
qed


text \<open>
  C8. When a solve with \<open>calcdCdt=True\<close> returns and both feedback functions are
  the default law, the outputs \<open>S\<close> and \<open>dCdt\<close> have one entry per conductance of
  the vector the solve used, internal conduits first; entry \<open>i\<close> is the law applied to
  entry \<open>i\<close> of that vector and entry \<open>i\<close> of the pressure differences
  \<open>abs(IncidenceFull * Pressures)\<close>, with the parameters of the internal conduits
  below \<open>len(InnerConduits)\<close> and those of the outflow conduits from there on.
\<close>

theorem feedback_outputs_aligned:
  assumes solve: "fst (solvecolony lib calcflows True kw self) = Inr sols"
    and fin: "dCdt_inner self = Some (\<lambda>x y. dCdt_default pw x y pin)"
    and fout: "dCdt_outer self = Some (\<lambda>x y. dCdt_default pw x y pout)"
    and kin: "pin ''r'' = Some ri" "pin ''b'' = Some bi" "pin ''z'' = Some zi" "pin ''q'' = Some qi"
    and kout: "pout ''r'' = Some ro" "pout ''b'' = Some bo" "pout ''z'' = Some zo"
      "pout ''q'' = Some qo"
  shows "\<exists>S dC Ap.
      sol_S sols = Some S \<and> sol_dCdt sols = Some dC \<and>
      sp_matvec (sol_IncidenceFull sols) (sol_Pressures sols) = Inr Ap \<and>
      length Ap = length (sol_conductivityfull sols) \<and>
      length S = length (sol_conductivityfull sols) \<and>
      length dC = length (sol_conductivityfull sols) \<and>
      (\<forall>i<length (sol_conductivityfull sols).
         S ! i = (if i < length (InnerConduits self)
                  then \<bar>bi * pw (sol_conductivityfull sols ! i) zi * \<bar>Ap ! i\<bar>\<bar>
                  else \<bar>bo * pw (sol_conductivityfull sols ! i) zo * \<bar>Ap ! i\<bar>\<bar>) \<and>
         dC ! i = (if i < length (InnerConduits self)
                   then ri * pw (sol_conductivityfull sols ! i) qi * (S ! i - 1)
                   else ro * pw (sol_conductivityfull sols ! i) qo * (S ! i - 1)))"
proof -
  define C where "C = sol_conductivityfull sols"
  define k where "k = length (InnerConduits self)"
  from solvecolony_Inr [OF solve] obtain A L info where
    L: "system_matrix A C = Inr L"
    and Cdef: "C = (case kw_conductivityfull kw of
                      None \<Rightarrow> InnerConduits self @ OutflowConduits self | Some c \<Rightarrow> c)"
    and A: "sol_IncidenceFull sols = A"
    and fb: "map_sum id (\<lambda>(s, d). (Some s, Some d))
               (feedback_part self kw A (sol_Pressures sols)
                  (\<lambda>x y. dCdt_default pw x y pin) (\<lambda>x y. dCdt_default pw x y pout))
             = Inr (sol_S sols, sol_dCdt sols)"
    unfolding C_def by (auto simp: fin fout)
  from fb obtain Ap where Ap: "sp_matvec A (sol_Pressures sols) = Inr Ap"
    by (auto simp: feedback_part_def split: sum.splits)
  have len: "length Ap = length C"
    using sp_matvec_length [OF Ap] system_matrix_dims [OF L] by simp
  have lenP: "length C = length (map abs Ap)" using len by simp
  note fp = feedback_part_default [OF Ap len Cdef kin kout, of pw]
  from fb have S: "sol_S sols = Some (map2 (\<lambda>c d. \<bar>bi * pw c zi * d\<bar>)
                (take k C) (take k (map abs Ap)) @
              map2 (\<lambda>c d. \<bar>bo * pw c zo * d\<bar>) (drop k C) (drop k (map abs Ap)))"
    and dC: "sol_dCdt sols = Some (map2 (\<lambda>c d. ri * pw c qi * (\<bar>bi * pw c zi * d\<bar> - 1))
                (take k C) (take k (map abs Ap)) @
              map2 (\<lambda>c d. ro * pw c qo * (\<bar>bo * pw c zo * d\<bar> - 1))
                (drop k C) (drop k (map abs Ap)))"
    unfolding fp k_def by simp_all
  show ?thesis
    unfolding C_def [symmetric] k_def [symmetric] A S dC
    using Ap len
    by (simp add: length_split_map2 [OF lenP] nth_split_map2 [OF lenP])
qed

subsection \<open>The solver on the colony of one zooid\<close>

lemma one_zooid_eq:
  "one_zooid ci co q pin pout =
     \<lparr>n = 2, m = 1, rowinds = [0, 0], colinds = [1, 1],
          InnerConduits = [ci, ci],
          UpperAdjacency = \<lparr>nrows = 2, ncols = 2, entries = [(0, 1, 1), (0, 1, 1)]\<rparr>,
          Incidence = \<lparr>nrows = 2, ncols = 2,
                       entries = [(0, 0, - 1), (1, 0, - 1), (0, 1, 1), (1, 1, 1)]\<rparr>,
          OutflowConduits = [co, co], InFlow = [q, q],
          dCdt_inner = Some (\<lambda>x y. dCdt_default (powr) x y pin),
          dCdt_outer = Some (\<lambda>x y. dCdt_default (powr) x y pout)\<rparr>"
  by (simp add: one_zooid_def init_1_1)

lemma one_zooid_fields:
  "InnerConduits (one_zooid ci co q pin pout) = [ci, ci]"
  "OutflowConduits (one_zooid ci co q pin pout) = [co, co]"
  "InFlow (one_zooid ci co q pin pout) = [q, q]"
  "dCdt_inner (one_zooid ci co q pin pout) = Some (\<lambda>x y. dCdt_default (powr) x y pin)"
  "dCdt_outer (one_zooid ci co q pin pout) = Some (\<lambda>x y. dCdt_default (powr) x y pout)"
  by (simp_all add: one_zooid_eq)

lemma IncidenceFull_one_zooid:
  "IncidenceFull_default (one_zooid ci co q pin pout) =
     Inr \<lparr>nrows = 4, ncols = 2,
          entries = [(0, 0, - 1), (1, 0, - 1), (0, 1, 1), (1, 1, 1), (2, 0, - 1), (3, 1, - 1)]\<rparr>"
  by (simp add: one_zooid_eq IncidenceFull_default_def sp_vstack_def sp_diags_def
      upt_rec numeral_2_eq_2)

lemma system_matrix_one_zooid:
  "system_matrix \<lparr>nrows = 4, ncols = 2,
          entries = [(0, 0, - 1), (1, 0, - 1), (0, 1, 1), (1, 1, 1), (2, 0, - 1), (3, 1, - 1)]\<rparr>
       [c0, c1, c2, c3] =
     Inr \<lparr>nrows = 2, ncols = 2,
          entries = [(0, 0, c0), (0, 1, - c0), (0, 0, c1), (0, 1, - c1),
                     (1, 0, - c0), (1, 1, c0), (1, 0, - c1), (1, 1, c1),
                     (0, 0, c2), (1, 1, c3)]\<rparr>"
  by (simp add: system_matrix_def sp_matmul_def sp_transpose_def sp_diags_def
      upt_rec numeral_2_eq_2 numeral_3_eq_3)

lemma two_node_solver_one_zooid:
  "two_node_solver \<lparr>nrows = 2, ncols = 2,
          entries = [(0, 0, c0), (0, 1, - c0), (0, 0, c1), (0, 1, - c1),
                     (1, 0, - c0), (1, 1, c0), (1, 0, - c1), (1, 1, c1),
                     (0, 0, c2), (1, 1, c3)]\<rparr> [q0, q1] x0 =
     (if (c0 + c1 + c2) * (c0 + c1 + c3) - (c0 + c1) * (c0 + c1) = 0
      then Inr (case x0 of None \<Rightarrow> [0, 0] | Some x \<Rightarrow> x, - 11)
      else Inr ([(q0 * (c0 + c1 + c3) + (c0 + c1) * q1) /
                   ((c0 + c1 + c2) * (c0 + c1 + c3) - (c0 + c1) * (c0 + c1)),
                 ((c0 + c1 + c2) * q1 + (c0 + c1) * q0) /
                   ((c0 + c1 + c2) * (c0 + c1 + c3) - (c0 + c1) * (c0 + c1))], 0))"
  by (simp add: two_node_solver_def sp_entry_def Let_def algebra_simps)

lemma sp_matvec_one_zooid:
  "sp_matvec \<lparr>nrows = 4, ncols = 2,
          entries = [(0, 0, - 1), (1, 0, - 1), (0, 1, 1), (1, 1, 1), (2, 0, - 1), (3, 1, - 1)]\<rparr>
       [p0, p1] = Inr [p1 - p0, p1 - p0, - p0, - p1]"
  by (simp add: sp_matvec_def upt_rec numeral_2_eq_2 numeral_3_eq_3 eval_nat_numeral)

lemma flows_of_one_zooid:
  "flows_of \<lparr>nrows = 4, ncols = 2,
          entries = [(0, 0, - 1), (1, 0, - 1), (0, 1, 1), (1, 1, 1), (2, 0, - 1), (3, 1, - 1)]\<rparr>
       [c0, c1, c2, c3] [p0, p1] =
     Inr [c0 * (p1 - p0), c1 * (p1 - p0), - (c2 * p0), - (c3 * p1)]"
  by (simp add: flows_of_def sp_matmul_def sp_diags_def sp_matvec_def upt_rec numeral_2_eq_2
      numeral_3_eq_3 eval_nat_numeral algebra_simps)

lemma feedback_one_zooid_half:
  "feedback_part (one_zooid 1 (1 / 2) (- 1) unit_params unit_params) no_kwargs
     \<lparr>nrows = 4, ncols = 2,
      entries = [(0, 0, - 1), (1, 0, - 1), (0, 1, 1), (1, 1, 1), (2, 0, - 1), (3, 1, - 1)]\<rparr>
     [- 2, - 2]
     (\<lambda>x y. dCdt_default (powr) x y unit_params) (\<lambda>x y. dCdt_default (powr) x y unit_params)
   = Inr ([0, 0, 2, 2], [- 1, - 1, 1, 1])"
proof -
  have C: "[1, 1, 1 / 2, 1 / 2 :: real] =
        (case kw_conductivityfull no_kwargs of
           None \<Rightarrow> InnerConduits (one_zooid 1 (1 / 2) (- 1) unit_params unit_params) @
                   OutflowConduits (one_zooid 1 (1 / 2) (- 1) unit_params unit_params)
         | Some c \<Rightarrow> c)"
    by (simp add: no_kwargs_def one_zooid_fields)
  show ?thesis
    by (subst feedback_part_default [OF sp_matvec_one_zooid _ C unit_params_keys unit_params_keys])
      (simp_all add: one_zooid_fields)
qed

lemma solve_one_zooid_half:
  "solvecolony ideal_lib True True no_kwargs
          (one_zooid 1 (1 / 2) (- 1) unit_params unit_params) =
     (Inr \<lparr>sol_Pressures = [- 2, - 2], sol_conductivityfull = [1, 1, 1 / 2, 1 / 2],
          sol_IncidenceFull = \<lparr>nrows = 4, ncols = 2,
            entries = [(0, 0, - 1), (1, 0, - 1), (0, 1, 1), (1, 1, 1), (2, 0, - 1), (3, 1, - 1)]\<rparr>,
          sol_Flows = Some [0, 0, 1, 1], sol_S = Some [0, 0, 2, 2],
          sol_dCdt = Some [- 1, - 1, 1, 1]\<rparr>,
      one_zooid 1 (1 / 2) (- 1) unit_params unit_params)"
proof (rule solvecolony_returns)
  show "(case kw_IncidenceFull no_kwargs of
           None \<Rightarrow> IncidenceFull_default (one_zooid 1 (1 / 2) (- 1) unit_params unit_params)
         | Some A \<Rightarrow> Inr A) =
        Inr \<lparr>nrows = 4, ncols = 2,
            entries = [(0, 0, - 1), (1, 0, - 1), (0, 1, 1), (1, 1, 1), (2, 0, - 1), (3, 1, - 1)]\<rparr>"
    by (simp add: no_kwargs_def IncidenceFull_one_zooid del: One_nat_def)
  show "[1, 1, 1 / 2, 1 / 2 :: real] =
        (case kw_conductivityfull no_kwargs of
           None \<Rightarrow> InnerConduits (one_zooid 1 (1 / 2) (- 1) unit_params unit_params) @
                   OutflowConduits (one_zooid 1 (1 / 2) (- 1) unit_params unit_params)
         | Some c \<Rightarrow> c)"
    by (simp add: no_kwargs_def one_zooid_fields)
  show "system_matrix \<lparr>nrows = 4, ncols = 2,
            entries = [(0, 0, - 1), (1, 0, - 1), (0, 1, 1), (1, 1, 1), (2, 0, - 1), (3, 1, - 1)]\<rparr>
          [1, 1, 1 / 2, 1 / 2] =
        Inr \<lparr>nrows = 2, ncols = 2,
          entries = [(0, 0, 1), (0, 1, - 1), (0, 0, 1), (0, 1, - 1),
                     (1, 0, - 1), (1, 1, 1), (1, 0, - 1), (1, 1, 1),
                     (0, 0, 1 / 2), (1, 1, 1 / 2)]\<rparr>"
    by (rule system_matrix_one_zooid)
  show "bicgstab ideal_lib \<lparr>nrows = 2, ncols = 2,
          entries = [(0, 0, 1), (0, 1, - 1), (0, 0, 1), (0, 1, - 1),
                     (1, 0, - 1), (1, 1, 1), (1, 0, - 1), (1, 1, 1),
                     (0, 0, 1 / 2), (1, 1, 1 / 2)]\<rparr>
          (InFlow (one_zooid 1 (1 / 2) (- 1) unit_params unit_params))
          (kw_Pressures no_kwargs) = Inr ([- 2, - 2], 0)"
    by (simp add: ideal_lib_def one_zooid_fields two_node_solver_one_zooid del: One_nat_def)
  show "(if True then map_sum id Some (flows_of \<lparr>nrows = 4, ncols = 2,
            entries = [(0, 0, - 1), (1, 0, - 1), (0, 1, 1), (1, 1, 1), (2, 0, - 1), (3, 1, - 1)]\<rparr>
            [1, 1, 1 / 2, 1 / 2] [- 2, - 2]) else Inr None) = Inr (Some [0, 0, 1, 1])"
    by (simp add: flows_of_one_zooid del: One_nat_def)
  show "(if True \<and> dCdt_inner (one_zooid 1 (1 / 2) (- 1) unit_params unit_params) \<noteq> None \<and>
            dCdt_outer (one_zooid 1 (1 / 2) (- 1) unit_params unit_params) \<noteq> None
         then map_sum id (\<lambda>(s, d). (Some s, Some d))
           (feedback_part (one_zooid 1 (1 / 2) (- 1) unit_params unit_params) no_kwargs
              \<lparr>nrows = 4, ncols = 2,
               entries = [(0, 0, - 1), (1, 0, - 1), (0, 1, 1), (1, 1, 1), (2, 0, - 1), (3, 1, - 1)]\<rparr>
              [- 2, - 2]
              (the (dCdt_inner (one_zooid 1 (1 / 2) (- 1) unit_params unit_params)))
              (the (dCdt_outer (one_zooid 1 (1 / 2) (- 1) unit_params unit_params))))
         else Inr (None, None)) = Inr (Some [0, 0, 2, 2], Some [- 1, - 1, 1, 1])"
    by (simp add: one_zooid_fields feedback_one_zooid_half del: One_nat_def)
qed


lemma fst_solve_one_zooid_half:
  "fst (solvecolony ideal_lib True True no_kwargs
          (one_zooid 1 (1 / 2) (- 1) unit_params unit_params)) =
     Inr \<lparr>sol_Pressures = [- 2, - 2], sol_conductivityfull = [1, 1, 1 / 2, 1 / 2],
          sol_IncidenceFull = \<lparr>nrows = 4, ncols = 2,
            entries = [(0, 0, - 1), (1, 0, - 1), (0, 1, 1), (1, 1, 1), (2, 0, - 1), (3, 1, - 1)]\<rparr>,
          sol_Flows = Some [0, 0, 1, 1], sol_S = Some [0, 0, 2, 2],
          sol_dCdt = Some [- 1, - 1, 1, 1]\<rparr>"
  by (simp only: solve_one_zooid_half fst_conv)

theorem feedback_outputs_aligned_witness:
  "\<exists>sols. fst (solvecolony ideal_lib True True no_kwargs
                  (one_zooid 1 (1 / 2) (- 1) unit_params unit_params)) = Inr sols \<and>
     dCdt_inner (one_zooid 1 (1 / 2) (- 1) unit_params unit_params) =
       Some (\<lambda>x y. dCdt_default (powr) x y unit_params) \<and>
     dCdt_outer (one_zooid 1 (1 / 2) (- 1) unit_params unit_params) =
       Some (\<lambda>x y. dCdt_default (powr) x y unit_params) \<and>
     unit_params ''r'' = Some 1 \<and> unit_params ''b'' = Some 1 \<and>
     unit_params ''z'' = Some 0 \<and> unit_params ''q'' = Some 0 \<and>
     sol_conductivityfull sols = [1, 1, 1 / 2, 1 / 2] \<and>
     length (InnerConduits (one_zooid 1 (1 / 2) (- 1) unit_params unit_params)) = 2 \<and>
     (\<exists>S dC Ap. sol_S sols = Some S \<and> sol_dCdt sols = Some dC \<and>
        sp_matvec (sol_IncidenceFull sols) (sol_Pressures sols) = Inr Ap \<and>
        Ap = [0, 0, 2, 2] \<and> length S = 4 \<and> length dC = 4 \<and>
        S ! 1 = \<bar>1 * (1 powr 0) * \<bar>Ap ! 1\<bar>\<bar> \<and> dC ! 1 = 1 * (1 powr 0) * (S ! 1 - 1) \<and>
        S ! 2 = \<bar>1 * ((1 / 2) powr 0) * \<bar>Ap ! 2\<bar>\<bar> \<and>
        dC ! 2 = 1 * ((1 / 2) powr 0) * (S ! 2 - 1) \<and>
        S = [0, 0, 2, 2] \<and> dC = [- 1, - 1, 1, 1])"
  using feedback_outputs_aligned [OF fst_solve_one_zooid_half one_zooid_fields(4)
      one_zooid_fields(5) unit_params_keys unit_params_keys]
  by (simp add: fst_solve_one_zooid_half one_zooid_fields unit_params_keys sp_matvec_one_zooid
      del: One_nat_def)

section \<open>The integrator with rate constant zero\<close>









section \<open>The linear system and the flows\<close>

subsection \<open>The flows, conduit by conduit\<close>

lemma sum_list_indicator_zero:
  "k \<le> i \<Longrightarrow> sum_list (map (\<lambda>j. if j = i then a else 0) [0 ..< k]) = (0::real)"
  by (induction k) auto

lemma sum_list_indicator:
  "i < k \<Longrightarrow> sum_list (map (\<lambda>j. if j = i then a else 0) [0 ..< k]) = (a::real)"
  by (induction k) (auto simp: less_Suc_eq sum_list_indicator_zero)

lemma sum_filter_concat:
  "sum_list (map h (filter P (concat (map F xs)))) =
     sum_list (map (\<lambda>k. sum_list (map h (filter P (F k)))) xs)"
  by (induction xs) simp_all

lemma filter_row_scaled:
  "filter (\<lambda>(r, c, v). r = i) (map (\<lambda>(k', j, b). (k, j, f b)) ys) =
     (if k = i then map (\<lambda>(k', j, b). (k, j, f b)) ys else [])"
  by (induction ys) auto

lemma sum_row_scaled:
  fixes a :: real
  shows "sum_list (map (\<lambda>(r, c, v). v * p ! c) (map (\<lambda>(k', j, b). (i, j, a * b)) ys)) =
         a * sum_list (map (\<lambda>(r, c, v). v * p ! c) ys)"
  by (induction ys) (auto simp: algebra_simps)

lemma diags_row:
  fixes C :: "real list"
  assumes "i < length C"
  shows "sum_list (map (\<lambda>(r, c, v). v * p ! c)
           (filter (\<lambda>(r, c, v). r = i)
              (concat (map (\<lambda>k. map (\<lambda>(k', j, b). (k, j, C ! k * b))
                                 (filter (\<lambda>(k', j, b). k' = k) E)) [0 ..< length C])))) =
         C ! i * sum_list (map (\<lambda>(r, c, v). v * p ! c) (filter (\<lambda>(r, c, v). r = i) E))"
proof -
  define T where "T = sum_list (map (\<lambda>(r, c, v). v * p ! c)
      (map (\<lambda>(k', j, b). (i, j, C ! i * b)) (filter (\<lambda>(k', j, b). k' = i) E)))"
  have "sum_list (map (\<lambda>(r, c, v). v * p ! c)
           (filter (\<lambda>(r, c, v). r = i)
              (concat (map (\<lambda>k. map (\<lambda>(k', j, b). (k, j, C ! k * b))
                                 (filter (\<lambda>(k', j, b). k' = k) E)) [0 ..< length C])))) =
        sum_list (map (\<lambda>k. if k = i then T else 0) [0 ..< length C])"
    unfolding T_def
    unfolding sum_filter_concat filter_row_scaled
    by (rule arg_cong [where f = sum_list], rule map_cong) auto
  also have "\<dots> = T" using assms by (rule sum_list_indicator)
  also have "T = C ! i * sum_list (map (\<lambda>(r, c, v). v * p ! c) (filter (\<lambda>(r, c, v). r = i) E))"
    unfolding T_def by (rule sum_row_scaled)
  finally show ?thesis .
qed


lemma flows_of_elementwise:
  assumes Ap: "sp_matvec A p = Inr Ap" and len: "nrows A = length C"
  shows "flows_of A C p = Inr (map2 (*) C Ap)"
proof -
  have np: "ncols A = length p" using Ap by (auto simp: sp_matvec_def split: if_splits)
  have Ap': "Ap = map (\<lambda>i. sum_list (map (\<lambda>(r, c, v). v * p ! c)
                  (filter (\<lambda>(r, c, v). r = i) (entries A)))) [0 ..< length C]"
    using Ap len by (auto simp: sp_matvec_def split: if_splits)
  have mm: "sp_matmul (sp_diags C) A =
      Inr \<lparr>nrows = length C, ncols = ncols A,
           entries = concat (map (\<lambda>k. map (\<lambda>(k', j, b). (k, j, C ! k * b))
                      (filter (\<lambda>(k', j, b). k' = k) (entries A))) [0 ..< length C])\<rparr>"
    using len by (simp add: sp_matmul_def sp_diags_def o_def)
  have "flows_of A C p =
      Inr (map (\<lambda>i. sum_list (map (\<lambda>(r, c, v). v * p ! c)
           (filter (\<lambda>(r, c, v). r = i)
              (concat (map (\<lambda>k. map (\<lambda>(k', j, b). (k, j, C ! k * b))
                 (filter (\<lambda>(k', j, b). k' = k) (entries A))) [0 ..< length C])))))
        [0 ..< length C])"
    unfolding flows_of_def mm sum.case by (simp add: sp_matvec_def np)
  also have "\<dots> = Inr (map (\<lambda>i. C ! i * sum_list (map (\<lambda>(r, c, v). v * p ! c)
                  (filter (\<lambda>(r, c, v). r = i) (entries A)))) [0 ..< length C])"
    by (simp add: diags_row)
  also have "\<dots> = Inr (map2 (*) C Ap)"
    unfolding Ap' by (auto intro!: nth_equalityI)
  finally show ?thesis .
qed

subsection \<open>A colony closed to the outside\<close>

text \<open>
  \<open>Colony(nz=1, mz=1, InnerConductivity=1, OutflowConductivity=0, Incurrents=-1)\<close>
  has no open outflow conduit. Its system matrix sends every pressure vector to a
  vector whose entries add up to zero, so no pressure vector satisfies the system
  with the injections \<open>[-1, -1]\<close>. \<open>solvecolony\<close> nevertheless returns: it keeps
  the vector of the solver and drops the solver's flag.
\<close>

lemma solve_one_zooid_closed:
  "solvecolony ideal_lib True False no_kwargs (one_zooid 1 0 (- 1) unit_params unit_params) =
     (Inr \<lparr>sol_Pressures = [0, 0], sol_conductivityfull = [1, 1, 0, 0],
          sol_IncidenceFull = \<lparr>nrows = 4, ncols = 2,
            entries = [(0, 0, - 1), (1, 0, - 1), (0, 1, 1), (1, 1, 1), (2, 0, - 1), (3, 1, - 1)]\<rparr>,
          sol_Flows = Some [0, 0, 0, 0], sol_S = None, sol_dCdt = None\<rparr>,
      one_zooid 1 0 (- 1) unit_params unit_params)"
proof (rule solvecolony_returns)
  show "(case kw_IncidenceFull no_kwargs of
           None \<Rightarrow> IncidenceFull_default (one_zooid 1 0 (- 1) unit_params unit_params)
         | Some A \<Rightarrow> Inr A) =
        Inr \<lparr>nrows = 4, ncols = 2,
            entries = [(0, 0, - 1), (1, 0, - 1), (0, 1, 1), (1, 1, 1), (2, 0, - 1), (3, 1, - 1)]\<rparr>"
    by (simp add: no_kwargs_def IncidenceFull_one_zooid del: One_nat_def)
  show "[1, 1, 0, 0 :: real] =
        (case kw_conductivityfull no_kwargs of
           None \<Rightarrow> InnerConduits (one_zooid 1 0 (- 1) unit_params unit_params) @
                   OutflowConduits (one_zooid 1 0 (- 1) unit_params unit_params)
         | Some c \<Rightarrow> c)"
    by (simp add: no_kwargs_def one_zooid_fields)
  show "system_matrix \<lparr>nrows = 4, ncols = 2,
            entries = [(0, 0, - 1), (1, 0, - 1), (0, 1, 1), (1, 1, 1), (2, 0, - 1), (3, 1, - 1)]\<rparr>
          [1, 1, 0, 0] =
        Inr \<lparr>nrows = 2, ncols = 2,
          entries = [(0, 0, 1), (0, 1, - 1), (0, 0, 1), (0, 1, - 1),
                     (1, 0, - 1), (1, 1, 1), (1, 0, - 1), (1, 1, 1),
                     (0, 0, 0), (1, 1, 0)]\<rparr>"
    by (rule system_matrix_one_zooid)
  show "bicgstab ideal_lib \<lparr>nrows = 2, ncols = 2,
          entries = [(0, 0, 1), (0, 1, - 1), (0, 0, 1), (0, 1, - 1),
                     (1, 0, - 1), (1, 1, 1), (1, 0, - 1), (1, 1, 1),
                     (0, 0, 0), (1, 1, 0)]\<rparr>
          (InFlow (one_zooid 1 0 (- 1) unit_params unit_params))
          (kw_Pressures no_kwargs) = Inr ([0, 0], - 11)"
    by (simp add: ideal_lib_def one_zooid_fields two_node_solver_one_zooid no_kwargs_def
        del: One_nat_def)
  show "(if True then map_sum id Some (flows_of \<lparr>nrows = 4, ncols = 2,
            entries = [(0, 0, - 1), (1, 0, - 1), (0, 1, 1), (1, 1, 1), (2, 0, - 1), (3, 1, - 1)]\<rparr>
            [1, 1, 0, 0] [0, 0]) else Inr None) = Inr (Some [0, 0, 0, 0])"
    by (simp add: flows_of_one_zooid del: One_nat_def)
  show "(if False \<and> dCdt_inner (one_zooid 1 0 (- 1) unit_params unit_params) \<noteq> None \<and>
            dCdt_outer (one_zooid 1 0 (- 1) unit_params unit_params) \<noteq> None
         then map_sum id (\<lambda>(s, d). (Some s, Some d))
           (feedback_part (one_zooid 1 0 (- 1) unit_params unit_params) no_kwargs
              \<lparr>nrows = 4, ncols = 2,
               entries = [(0, 0, - 1), (1, 0, - 1), (0, 1, 1), (1, 1, 1), (2, 0, - 1), (3, 1, - 1)]\<rparr>
              [0, 0]
              (the (dCdt_inner (one_zooid 1 0 (- 1) unit_params unit_params)))
              (the (dCdt_outer (one_zooid 1 0 (- 1) unit_params unit_params))))
         else Inr (None, None)) = Inr (None, None)"
    by simp
qed

lemma closed_system_unsolvable:
  "sp_matvec \<lparr>nrows = 2, ncols = 2,
          entries = [(0, 0, 1), (0, 1, - 1), (0, 0, 1), (0, 1, - 1),
                     (1, 0, - 1), (1, 1, 1), (1, 0, - 1), (1, 1, 1),
                     (0, 0, 0), (1, 1, 0)]\<rparr> p \<noteq> Inr [- 1, - 1]"
  by (auto simp: sp_matvec_def upt_rec numeral_2_eq_2)

theorem singular_system_unsolved:
  "\<exists>sols L.
     fst (solvecolony ideal_lib True False no_kwargs
            (one_zooid 1 0 (- 1) unit_params unit_params)) = Inr sols \<and>
     sol_conductivityfull sols = [1, 1, 0, 0] \<and>
     InFlow (one_zooid 1 0 (- 1) unit_params unit_params) = [- 1, - 1] \<and>
     system_matrix (sol_IncidenceFull sols) (sol_conductivityfull sols) = Inr L \<and>
     sol_Pressures sols = [0, 0] \<and>
     sp_matvec L (sol_Pressures sols) = Inr [0, 0] \<and>
     (\<forall>p. sp_matvec L p \<noteq> Inr (InFlow (one_zooid 1 0 (- 1) unit_params unit_params)))"
proof -
  define L where "L = \<lparr>nrows = 2, ncols = 2,
          entries = [(0, 0, 1), (0, 1, - 1), (0, 0, 1), (0, 1, - 1),
                     (1, 0, - 1), (1, 1, 1), (1, 0, - 1), (1, 1, 1),
                     (0, 0, 0), (1, 1, 0 :: real)]\<rparr>"
  have sm: "system_matrix \<lparr>nrows = 4, ncols = 2,
            entries = [(0, 0, - 1), (1, 0, - 1), (0, 1, 1), (1, 1, 1), (2, 0, - 1), (3, 1, - 1)]\<rparr>
          [1, 1, 0, 0] = Inr L"
    unfolding L_def by (rule system_matrix_one_zooid)
  have un: "\<forall>p. sp_matvec L p \<noteq> Inr [- 1, - 1]"
    unfolding L_def using closed_system_unsolvable by blast
  have at0: "sp_matvec L [0, 0] = Inr [0, 0]"
    unfolding L_def by (simp add: sp_matvec_def upt_rec numeral_2_eq_2)
  show ?thesis
    apply (rule exI [of _ "\<lparr>sol_Pressures = [0, 0], sol_conductivityfull = [1, 1, 0, 0],
          sol_IncidenceFull = \<lparr>nrows = 4, ncols = 2,
            entries = [(0, 0, - 1), (1, 0, - 1), (0, 1, 1), (1, 1, 1), (2, 0, - 1), (3, 1, - 1)]\<rparr>,
          sol_Flows = Some [0, 0, 0, 0], sol_S = None, sol_dCdt = None\<rparr>"])
    apply (rule exI [of _ L])
    using sm un at0
    by (simp add: solve_one_zooid_closed one_zooid_fields del: One_nat_def)
qed

subsection \<open>What the solve guarantees\<close>

text \<open>
  C1. When \<open>solvecolony\<close> with \<open>calcflows=True\<close> returns, the conductance vector
  and the incidence matrix of the result are those of the keyword arguments (by
  default \<open>InnerConduits ++ OutflowConduits\<close> and the extended incidence matrix), the
  pressures are the vector that \<open>bicgstab\<close> returned for the matrix
  \<open>transpose(A) * diags(C) * A\<close>, the right-hand side \<open>InFlow\<close> and the starting
  vector of the keyword arguments, whatever its convergence flag, and the flow in
  conduit \<open>i\<close> is \<open>C[i] * (A * p)[i]\<close>. The pressures satisfy the linear system
  exactly as far as the solver's vector does.
\<close>

theorem solve_returns_solver_output:
  assumes "fst (solvecolony lib True calcdCdt kw self) = Inr sols"
  shows "\<exists>L info Ap.
      sol_conductivityfull sols =
        (case kw_conductivityfull kw of
           None \<Rightarrow> InnerConduits self @ OutflowConduits self | Some c \<Rightarrow> c) \<and>
      (case kw_IncidenceFull kw of None \<Rightarrow> IncidenceFull_default self | Some A \<Rightarrow> Inr A)
        = Inr (sol_IncidenceFull sols) \<and>
      system_matrix (sol_IncidenceFull sols) (sol_conductivityfull sols) = Inr L \<and>
      bicgstab lib L (InFlow self) (kw_Pressures kw) = Inr (sol_Pressures sols, info) \<and>
      sp_matvec (sol_IncidenceFull sols) (sol_Pressures sols) = Inr Ap \<and>
      length Ap = length (sol_conductivityfull sols) \<and>
      sol_Flows sols = Some (map2 (*) (sol_conductivityfull sols) Ap)"
proof -
  from solvecolony_Inr [OF assms] obtain A L info where
    A: "(case kw_IncidenceFull kw of None \<Rightarrow> IncidenceFull_default self | Some A \<Rightarrow> Inr A)
          = Inr A"
    and L: "system_matrix A (sol_conductivityfull sols) = Inr L"
    and b: "bicgstab lib L (InFlow self) (kw_Pressures kw) = Inr (sol_Pressures sols, info)"
    and C: "sol_conductivityfull sols =
        (case kw_conductivityfull kw of
           None \<Rightarrow> InnerConduits self @ OutflowConduits self | Some c \<Rightarrow> c)"
    and A': "sol_IncidenceFull sols = A"
    and fl: "map_sum id Some (flows_of A (sol_conductivityfull sols) (sol_Pressures sols))
              = Inr (sol_Flows sols)"
    by auto
  from fl obtain f where f: "flows_of A (sol_conductivityfull sols) (sol_Pressures sols) = Inr f"
    and sf: "sol_Flows sols = Some f"
    by (cases "flows_of A (sol_conductivityfull sols) (sol_Pressures sols)") auto
  have rows: "nrows A = length (sol_conductivityfull sols)"
    using system_matrix_dims [OF L] by simp
  from f have "ncols A = length (sol_Pressures sols)"
    by (auto simp: flows_of_def sp_matmul_def sp_diags_def sp_matvec_def
        split: sum.splits if_splits)
  then obtain Ap where Ap: "sp_matvec A (sol_Pressures sols) = Inr Ap"
    by (simp add: sp_matvec_def)
  have lenAp: "length Ap = length (sol_conductivityfull sols)"
    using sp_matvec_length [OF Ap] rows by simp
  have "f = map2 (*) (sol_conductivityfull sols) Ap"
    using flows_of_elementwise [OF Ap rows] f by simp
  with A L b C A' sf Ap lenAp show ?thesis by auto
qed

theorem solve_returns_solver_output_witness:
  "\<exists>sols. fst (solvecolony ideal_lib True True no_kwargs
                  (one_zooid 1 (1 / 2) (- 1) unit_params unit_params)) = Inr sols \<and>
     sol_Pressures sols = [- 2, - 2] \<and>
     sol_conductivityfull sols = [1, 1, 1 / 2, 1 / 2] \<and>
     sol_Flows sols = Some [0, 0, 1, 1] \<and>
     (\<exists>L info Ap.
        system_matrix (sol_IncidenceFull sols) (sol_conductivityfull sols) = Inr L \<and>
        bicgstab ideal_lib L (InFlow (one_zooid 1 (1 / 2) (- 1) unit_params unit_params))
          (kw_Pressures no_kwargs) = Inr (sol_Pressures sols, info) \<and>
        sp_matvec (sol_IncidenceFull sols) (sol_Pressures sols) = Inr Ap \<and>
        length Ap = length (sol_conductivityfull sols) \<and>
        sol_Flows sols = Some (map2 (*) (sol_conductivityfull sols) Ap))"
proof -
  define s where "s = \<lparr>sol_Pressures = [- 2, - 2], sol_conductivityfull = [1, 1, 1 / 2, 1 / 2],
          sol_IncidenceFull = \<lparr>nrows = 4, ncols = 2,
            entries = [(0, 0, - 1), (1, 0, - 1), (0, 1, 1), (1, 1, 1), (2, 0, - 1),
                       (3, 1, - 1 :: real)]\<rparr>,
          sol_Flows = Some [0, 0, 1, 1], sol_S = Some [0, 0, 2, 2],
          sol_dCdt = Some [- 1, - 1, 1, 1]\<rparr>"
  have s: "fst (solvecolony ideal_lib True True no_kwargs
                  (one_zooid 1 (1 / 2) (- 1) unit_params unit_params)) = Inr s"
    unfolding s_def by (rule fst_solve_one_zooid_half)
  have v: "sol_Pressures s = [- 2, - 2]" "sol_conductivityfull s = [1, 1, 1 / 2, 1 / 2]"
    "sol_Flows s = Some [0, 0, 1, 1]"
    by (simp_all add: s_def)
  from solve_returns_solver_output [OF s]
  obtain L info Ap where f:
    "system_matrix (sol_IncidenceFull s) (sol_conductivityfull s) = Inr L"
    "bicgstab ideal_lib L (InFlow (one_zooid 1 (1 / 2) (- 1) unit_params unit_params))
          (kw_Pressures no_kwargs) = Inr (sol_Pressures s, info)"
    "sp_matvec (sol_IncidenceFull s) (sol_Pressures s) = Inr Ap"
    "length Ap = length (sol_conductivityfull s)"
    "sol_Flows s = Some (map2 (*) (sol_conductivityfull s) Ap)"
    by (elim exE conjE) (rule that, assumption+)
  show ?thesis
    apply (rule exI [of _ s])
    apply (intro conjI)
        apply (rule s)
       apply (rule v(1))
      apply (rule v(2))
     apply (rule v(3))
    apply (rule exI [of _ L])
    apply (rule exI [of _ info])
    apply (rule exI [of _ Ap])
    apply (intro conjI)
        apply (rule f(1))
       apply (rule f(2))
      apply (rule f(3))
     apply (rule f(4))
    apply (rule f(5))
    done
qed

section \<open>What becomes of the failures of the library routines\<close>

lemma dlnCdt_eval:
  assumes C0: "map (np_exp lib) lnC = C"
    and L: "system_matrix (sol_IncidenceFull params) C = Inr L"
    and b: "bicgstab lib L (InFlow self) (Some (sol_Pressures params)) = Inr (p, info)"
    and fin: "dCdt_inner self = Some fi" and fout: "dCdt_outer self = Some fo"
    and fb: "feedback_part self
               \<lparr>kw_conductivityfull = Some C,
                kw_IncidenceFull = Some (sol_IncidenceFull params),
                kw_Pressures = Some (sol_Pressures params)\<rparr>
               (sol_IncidenceFull params) p fi fo = Inr (S, dC)"
  shows "dlnCdt lib self params t lnC = np_div dC C"
proof -
  define kw where "kw = \<lparr>kw_conductivityfull = Some C,
                kw_IncidenceFull = Some (sol_IncidenceFull params),
                kw_Pressures = Some (sol_Pressures params)\<rparr>"
  have solve: "solvecolony lib False True kw self =
           (Inr \<lparr>sol_Pressures = p, sol_conductivityfull = C,
                 sol_IncidenceFull = sol_IncidenceFull params,
                 sol_Flows = None, sol_S = Some S, sol_dCdt = Some dC\<rparr>, self)"
  proof (rule solvecolony_returns)
    show "(case kw_IncidenceFull kw of None \<Rightarrow> IncidenceFull_default self | Some A \<Rightarrow> Inr A)
            = Inr (sol_IncidenceFull params)" by (simp add: kw_def)
    show "C = (case kw_conductivityfull kw of
                 None \<Rightarrow> InnerConduits self @ OutflowConduits self | Some c \<Rightarrow> c)"
      by (simp add: kw_def)
    show "system_matrix (sol_IncidenceFull params) C = Inr L" by (rule L)
    show "bicgstab lib L (InFlow self) (kw_Pressures kw) = Inr (p, info)"
      using b by (simp add: kw_def)
    show "(if False then map_sum id Some (flows_of (sol_IncidenceFull params) C p)
           else Inr None) = Inr None" by simp
    show "(if True \<and> dCdt_inner self \<noteq> None \<and> dCdt_outer self \<noteq> None
          then map_sum id (\<lambda>(s, d). (Some s, Some d))
                 (feedback_part self kw (sol_IncidenceFull params) p (the (dCdt_inner self))
                    (the (dCdt_outer self)))
          else Inr (None, None)) = Inr (Some S, Some dC)"
      using fb by (simp add: fin fout kw_def)
  qed
  show ?thesis
    unfolding dlnCdt_def Let_def C0 kw_def [symmetric] solve by simp
qed

lemma feedback_one_zooid_unit:
  assumes C: "kw_conductivityfull kw = Some [c0, c1, c2, c3]"
    and nz: "c0 \<noteq> 0" "c1 \<noteq> 0" "c2 \<noteq> 0" "c3 \<noteq> 0"
  shows "feedback_part (one_zooid ci co q unit_params unit_params) kw
     \<lparr>nrows = 4, ncols = 2,
      entries = [(0, 0, - 1), (1, 0, - 1), (0, 1, 1), (1, 1, 1), (2, 0, - 1), (3, 1, - 1)]\<rparr>
     [p0, p1]
     (\<lambda>x y. dCdt_default (powr) x y unit_params) (\<lambda>x y. dCdt_default (powr) x y unit_params)
   = Inr ([\<bar>p1 - p0\<bar>, \<bar>p1 - p0\<bar>, \<bar>p0\<bar>, \<bar>p1\<bar>],
          [\<bar>p1 - p0\<bar> - 1, \<bar>p1 - p0\<bar> - 1, \<bar>p0\<bar> - 1, \<bar>p1\<bar> - 1])"
proof -
  have Ckw: "[c0, c1, c2, c3] =
        (case kw_conductivityfull kw of
           None \<Rightarrow> InnerConduits (one_zooid ci co q unit_params unit_params) @
                   OutflowConduits (one_zooid ci co q unit_params unit_params)
         | Some c \<Rightarrow> c)"
    by (simp add: C)
  show ?thesis
    by (subst feedback_part_default [OF sp_matvec_one_zooid _ Ckw unit_params_keys
          unit_params_keys])
      (simp_all add: one_zooid_fields nz)
qed


lemma reference_solve:
  assumes A: "IncidenceFull_default self = Inr A"
    and L: "system_matrix A (InnerConduits self @ OutflowConduits self) = Inr L"
    and b: "bicgstab lib L (InFlow self) None = Inr (p, info)"
  shows "solvecolony lib False False no_kwargs self =
           (Inr \<lparr>sol_Pressures = p,
                 sol_conductivityfull = InnerConduits self @ OutflowConduits self,
                 sol_IncidenceFull = A, sol_Flows = None, sol_S = None, sol_dCdt = None\<rparr>,
            self)"
proof (rule solvecolony_returns)
  show "(case kw_IncidenceFull no_kwargs of
           None \<Rightarrow> IncidenceFull_default self | Some A \<Rightarrow> Inr A) = Inr A"
    by (simp add: no_kwargs_def A)
  show "InnerConduits self @ OutflowConduits self =
          (case kw_conductivityfull no_kwargs of
             None \<Rightarrow> InnerConduits self @ OutflowConduits self | Some c \<Rightarrow> c)"
    by (simp add: no_kwargs_def)
  show "system_matrix A (InnerConduits self @ OutflowConduits self) = Inr L" by (rule L)
  show "bicgstab lib L (InFlow self) (kw_Pressures no_kwargs) = Inr (p, info)"
    using b by (simp add: no_kwargs_def)
  show "(if False
         then map_sum id Some (flows_of A (InnerConduits self @ OutflowConduits self) p)
         else Inr None) = Inr None" by simp
  show "(if False \<and> dCdt_inner self \<noteq> None \<and> dCdt_outer self \<noteq> None
        then map_sum id (\<lambda>(s, d). (Some s, Some d))
               (feedback_part self no_kwargs A p (the (dCdt_inner self))
                  (the (dCdt_outer self)))
        else Inr (None, None)) = Inr (None, None)" by simp
qed

lemma UpdateColony_of_integrator:
  assumes ref: "solvecolony lib False False no_kwargs self = (Inr params, self)"
    and int: "ode_integrate lib (dlnCdt lib self params)
                (map (np_log lib) (sol_conductivityfull params)) 0 tmax = Inr (y, ok)"
  shows "UpdateColony lib tmax self = (Inr (map (np_exp lib) y), self)"
  unfolding UpdateColony_def ref prod.case sum.case Let_def int by simp

text \<open>
  C5. Neither method looks at what the library reports. \<open>solvecolony\<close> takes
  component 0 of the result of \<open>bicgstab\<close> and drops the convergence flag;
  \<open>UpdateColony\<close> returns \<open>exp\<close> of what \<open>integrate\<close> gives and never asks
  \<open>successful()\<close>. So for every flag \<open>info\<close> and every answer \<open>ok\<close>: when the
  solver returns the vector \<open>p\<close>, the reference solve returns with the pressures
  \<open>p\<close>, and when the integrator returns the vector \<open>y\<close>, \<open>UpdateColony\<close> returns
  \<open>exp(y)\<close>. A failure reaches the caller only as an exception raised by the
  library routine itself.
\<close>

theorem failure_flags_are_dropped:
  assumes A: "IncidenceFull_default self = Inr A"
    and L: "system_matrix A (InnerConduits self @ OutflowConduits self) = Inr L"
    and b: "bicgstab lib L (InFlow self) None = Inr (p, info)"
    and int: "ode_integrate lib
                (dlnCdt lib self
                   \<lparr>sol_Pressures = p,
                    sol_conductivityfull = InnerConduits self @ OutflowConduits self,
                    sol_IncidenceFull = A, sol_Flows = None, sol_S = None, sol_dCdt = None\<rparr>)
                (map (np_log lib) (InnerConduits self @ OutflowConduits self)) 0 tmax
              = Inr (y, ok)"
  shows "(\<exists>sols. fst (solvecolony lib False False no_kwargs self) = Inr sols \<and>
                 sol_Pressures sols = p) \<and>
         fst (UpdateColony lib tmax self) = Inr (map (np_exp lib) y)"
proof -
  note ref = reference_solve [OF A L b]
  have 1: "\<exists>sols. fst (solvecolony lib False False no_kwargs self) = Inr sols \<and>
                 sol_Pressures sols = p"
    unfolding ref by simp
  have 2: "fst (UpdateColony lib tmax self) = Inr (map (np_exp lib) y)"
    using UpdateColony_of_integrator [OF ref, of tmax y ok] int by simp
  from 1 2 show ?thesis by (rule conjI)
qed

lemma stalled_run_half:
  "IncidenceFull_default (one_zooid 1 (1 / 2) (- 1) unit_params unit_params) =
     Inr \<lparr>nrows = 4, ncols = 2,
          entries = [(0, 0, - 1), (1, 0, - 1), (0, 1, 1), (1, 1, 1), (2, 0, - 1), (3, 1, - 1)]\<rparr>"
  "system_matrix \<lparr>nrows = 4, ncols = 2,
          entries = [(0, 0, - 1), (1, 0, - 1), (0, 1, 1), (1, 1, 1), (2, 0, - 1), (3, 1, - 1)]\<rparr>
       (InnerConduits (one_zooid 1 (1 / 2) (- 1) unit_params unit_params) @
        OutflowConduits (one_zooid 1 (1 / 2) (- 1) unit_params unit_params)) =
     Inr \<lparr>nrows = 2, ncols = 2,
          entries = [(0, 0, 1), (0, 1, - 1), (0, 0, 1), (0, 1, - 1),
                     (1, 0, - 1), (1, 1, 1), (1, 0, - 1), (1, 1, 1),
                     (0, 0, 1 / 2), (1, 1, 1 / 2)]\<rparr>"
  "bicgstab stalled_lib \<lparr>nrows = 2, ncols = 2,
          entries = [(0, 0, 1), (0, 1, - 1), (0, 0, 1), (0, 1, - 1),
                     (1, 0, - 1), (1, 1, 1), (1, 0, - 1), (1, 1, 1),
                     (0, 0, 1 / 2), (1, 1, 1 / 2)]\<rparr>
     (InFlow (one_zooid 1 (1 / 2) (- 1) unit_params unit_params)) x0 = Inr ([- 2, - 2], 0)"
    apply (rule IncidenceFull_one_zooid)
   apply (simp only: one_zooid_fields append.simps system_matrix_one_zooid)
  apply (simp add: stalled_lib_def one_zooid_fields two_node_solver_one_zooid del: One_nat_def)
  done

lemma stalled_rhs_half:
  "dlnCdt stalled_lib (one_zooid 1 (1 / 2) (- 1) unit_params unit_params)
     \<lparr>sol_Pressures = [- 2, - 2],
      sol_conductivityfull = InnerConduits (one_zooid 1 (1 / 2) (- 1) unit_params unit_params) @
        OutflowConduits (one_zooid 1 (1 / 2) (- 1) unit_params unit_params),
      sol_IncidenceFull = \<lparr>nrows = 4, ncols = 2,
          entries = [(0, 0, - 1), (1, 0, - 1), (0, 1, 1), (1, 1, 1), (2, 0, - 1), (3, 1, - 1)]\<rparr>,
      sol_Flows = None, sol_S = None, sol_dCdt = None\<rparr>
     t (map ln [1, 1, 1 / 2, 1 / 2]) = Inr [- 1, - 1, 2, 2]"
proof -
  have "dlnCdt stalled_lib (one_zooid 1 (1 / 2) (- 1) unit_params unit_params)
     \<lparr>sol_Pressures = [- 2, - 2],
      sol_conductivityfull = InnerConduits (one_zooid 1 (1 / 2) (- 1) unit_params unit_params) @
        OutflowConduits (one_zooid 1 (1 / 2) (- 1) unit_params unit_params),
      sol_IncidenceFull = \<lparr>nrows = 4, ncols = 2,
          entries = [(0, 0, - 1), (1, 0, - 1), (0, 1, 1), (1, 1, 1), (2, 0, - 1), (3, 1, - 1)]\<rparr>,
      sol_Flows = None, sol_S = None, sol_dCdt = None\<rparr>
     t (map ln [1, 1, 1 / 2, 1 / 2]) =
     np_div [\<bar>- 2 - (- 2)\<bar> - 1, \<bar>- 2 - (- 2)\<bar> - 1, \<bar>- 2\<bar> - 1, \<bar>- 2\<bar> - 1] [1, 1, 1 / 2, 1 / 2]"
  proof (rule dlnCdt_eval)
    show "map (np_exp stalled_lib) (map ln [1, 1, 1 / 2, 1 / 2]) = [1, 1, 1 / 2, 1 / 2]"
      by (simp add: stalled_lib_def)
    show "system_matrix (sol_IncidenceFull \<lparr>sol_Pressures = [- 2, - 2],
      sol_conductivityfull = InnerConduits (one_zooid 1 (1 / 2) (- 1) unit_params unit_params) @
        OutflowConduits (one_zooid 1 (1 / 2) (- 1) unit_params unit_params),
      sol_IncidenceFull = \<lparr>nrows = 4, ncols = 2,
          entries = [(0, 0, - 1), (1, 0, - 1), (0, 1, 1), (1, 1, 1), (2, 0, - 1), (3, 1, - 1)]\<rparr>,
      sol_Flows = None, sol_S = None, sol_dCdt = None\<rparr>) [1, 1, 1 / 2, 1 / 2] =
      Inr \<lparr>nrows = 2, ncols = 2,
          entries = [(0, 0, 1), (0, 1, - 1), (0, 0, 1), (0, 1, - 1),
                     (1, 0, - 1), (1, 1, 1), (1, 0, - 1), (1, 1, 1),
                     (0, 0, 1 / 2), (1, 1, 1 / 2)]\<rparr>"
      by (simp only: networksols.simps system_matrix_one_zooid)
    show "bicgstab stalled_lib \<lparr>nrows = 2, ncols = 2,
          entries = [(0, 0, 1), (0, 1, - 1), (0, 0, 1), (0, 1, - 1),
                     (1, 0, - 1), (1, 1, 1), (1, 0, - 1), (1, 1, 1),
                     (0, 0, 1 / 2), (1, 1, 1 / 2)]\<rparr>
        (InFlow (one_zooid 1 (1 / 2) (- 1) unit_params unit_params))
        (Some (sol_Pressures \<lparr>sol_Pressures = [- 2, - 2],
      sol_conductivityfull = InnerConduits (one_zooid 1 (1 / 2) (- 1) unit_params unit_params) @
        OutflowConduits (one_zooid 1 (1 / 2) (- 1) unit_params unit_params),
      sol_IncidenceFull = \<lparr>nrows = 4, ncols = 2,
          entries = [(0, 0, - 1), (1, 0, - 1), (0, 1, 1), (1, 1, 1), (2, 0, - 1), (3, 1, - 1)]\<rparr>,
      sol_Flows = None, sol_S = None, sol_dCdt = None\<rparr>)) = Inr ([- 2, - 2], 0)"
      by (rule stalled_run_half(3))
    show "dCdt_inner (one_zooid 1 (1 / 2) (- 1) unit_params unit_params) =
            Some (\<lambda>x y. dCdt_default (powr) x y unit_params)"
      by (rule one_zooid_fields)
    show "dCdt_outer (one_zooid 1 (1 / 2) (- 1) unit_params unit_params) =
            Some (\<lambda>x y. dCdt_default (powr) x y unit_params)"
      by (rule one_zooid_fields)
    show "feedback_part (one_zooid 1 (1 / 2) (- 1) unit_params unit_params)
       \<lparr>kw_conductivityfull = Some [1, 1, 1 / 2, 1 / 2],
          kw_IncidenceFull = Some (sol_IncidenceFull \<lparr>sol_Pressures = [- 2, - 2],
      sol_conductivityfull = InnerConduits (one_zooid 1 (1 / 2) (- 1) unit_params unit_params) @
        OutflowConduits (one_zooid 1 (1 / 2) (- 1) unit_params unit_params),
      sol_IncidenceFull = \<lparr>nrows = 4, ncols = 2,
          entries = [(0, 0, - 1), (1, 0, - 1), (0, 1, 1), (1, 1, 1), (2, 0, - 1), (3, 1, - 1)]\<rparr>,
      sol_Flows = None, sol_S = None, sol_dCdt = None\<rparr>),
          kw_Pressures = Some (sol_Pressures \<lparr>sol_Pressures = [- 2, - 2],
      sol_conductivityfull = InnerConduits (one_zooid 1 (1 / 2) (- 1) unit_params unit_params) @
        OutflowConduits (one_zooid 1 (1 / 2) (- 1) unit_params unit_params),
      sol_IncidenceFull = \<lparr>nrows = 4, ncols = 2,
          entries = [(0, 0, - 1), (1, 0, - 1), (0, 1, 1), (1, 1, 1), (2, 0, - 1), (3, 1, - 1)]\<rparr>,
      sol_Flows = None, sol_S = None, sol_dCdt = None\<rparr>)\<rparr>
       (sol_IncidenceFull \<lparr>sol_Pressures = [- 2, - 2],
      sol_conductivityfull = InnerConduits (one_zooid 1 (1 / 2) (- 1) unit_params unit_params) @
        OutflowConduits (one_zooid 1 (1 / 2) (- 1) unit_params unit_params),
      sol_IncidenceFull = \<lparr>nrows = 4, ncols = 2,
          entries = [(0, 0, - 1), (1, 0, - 1), (0, 1, 1), (1, 1, 1), (2, 0, - 1), (3, 1, - 1)]\<rparr>,
      sol_Flows = None, sol_S = None, sol_dCdt = None\<rparr>)
       [- 2, - 2]
       (\<lambda>x y. dCdt_default (powr) x y unit_params) (\<lambda>x y. dCdt_default (powr) x y unit_params)
      = Inr ([\<bar>- 2 - (- 2)\<bar>, \<bar>- 2 - (- 2)\<bar>, \<bar>- 2\<bar>, \<bar>- 2\<bar>],
          [\<bar>- 2 - (- 2)\<bar> - 1, \<bar>- 2 - (- 2)\<bar> - 1, \<bar>- 2\<bar> - 1, \<bar>- 2\<bar> - 1])"
      unfolding networksols.simps
      by (rule feedback_one_zooid_unit [of _ 1 1 "1 / 2" "1 / 2"]) simp_all
  qed
  then show ?thesis by (simp add: np_div_def np_binop_def)
qed


lemma stalled_ode_returns:
  "f t0 y0 = Inr k \<Longrightarrow> ode_integrate stalled_lib f y0 t0 t1 = Inr (y0, False)"
  by (simp add: stalled_lib_def stalled_ode_def)

lemma stalled_int_half:
  "ode_integrate stalled_lib
     (dlnCdt stalled_lib (one_zooid 1 (1 / 2) (- 1) unit_params unit_params)
        \<lparr>sol_Pressures = [- 2, - 2],
         sol_conductivityfull =
           InnerConduits (one_zooid 1 (1 / 2) (- 1) unit_params unit_params) @
           OutflowConduits (one_zooid 1 (1 / 2) (- 1) unit_params unit_params),
         sol_IncidenceFull = \<lparr>nrows = 4, ncols = 2,
           entries = [(0, 0, - 1), (1, 0, - 1), (0, 1, 1), (1, 1, 1), (2, 0, - 1), (3, 1, - 1)]\<rparr>,
         sol_Flows = None, sol_S = None, sol_dCdt = None\<rparr>)
     (map (np_log stalled_lib)
        (InnerConduits (one_zooid 1 (1 / 2) (- 1) unit_params unit_params) @
         OutflowConduits (one_zooid 1 (1 / 2) (- 1) unit_params unit_params))) 0 tmax =
   Inr (map ln [1, 1, 1 / 2, 1 / 2], False)"
proof -
  have l: "map (np_log stalled_lib)
        (InnerConduits (one_zooid 1 (1 / 2) (- 1) unit_params unit_params) @
         OutflowConduits (one_zooid 1 (1 / 2) (- 1) unit_params unit_params)) =
        map ln [1, 1, 1 / 2, 1 / 2]"
    by (simp add: stalled_lib_def one_zooid_fields)
  show ?thesis unfolding l by (rule stalled_ode_returns) (rule stalled_rhs_half)
qed

theorem failure_flags_are_dropped_witness:
  "(\<exists>sols. fst (solvecolony stalled_lib False False no_kwargs
                   (one_zooid 1 (1 / 2) (- 1) unit_params unit_params)) = Inr sols \<and>
            sol_Pressures sols = [- 2, - 2]) \<and>
   fst (UpdateColony stalled_lib 1 (one_zooid 1 (1 / 2) (- 1) unit_params unit_params)) =
     Inr [1, 1, 1 / 2, 1 / 2]"
  using failure_flags_are_dropped [OF stalled_run_half(1) stalled_run_half(2)
      stalled_run_half(3) stalled_int_half [of 1]]
  by (simp add: stalled_lib_def)

lemma closed_run:
  "IncidenceFull_default (one_zooid 1 0 (- 1) unit_params unit_params) =
     Inr \<lparr>nrows = 4, ncols = 2,
          entries = [(0, 0, - 1), (1, 0, - 1), (0, 1, 1), (1, 1, 1), (2, 0, - 1), (3, 1, - 1)]\<rparr>"
  "system_matrix \<lparr>nrows = 4, ncols = 2,
          entries = [(0, 0, - 1), (1, 0, - 1), (0, 1, 1), (1, 1, 1), (2, 0, - 1), (3, 1, - 1)]\<rparr>
       (InnerConduits (one_zooid 1 0 (- 1) unit_params unit_params) @
        OutflowConduits (one_zooid 1 0 (- 1) unit_params unit_params)) =
     Inr \<lparr>nrows = 2, ncols = 2,
          entries = [(0, 0, 1), (0, 1, - 1), (0, 0, 1), (0, 1, - 1),
                     (1, 0, - 1), (1, 1, 1), (1, 0, - 1), (1, 1, 1),
                     (0, 0, 0), (1, 1, 0)]\<rparr>"
  "bicgstab ideal_lib \<lparr>nrows = 2, ncols = 2,
          entries = [(0, 0, 1), (0, 1, - 1), (0, 0, 1), (0, 1, - 1),
                     (1, 0, - 1), (1, 1, 1), (1, 0, - 1), (1, 1, 1),
                     (0, 0, 0), (1, 1, 0)]\<rparr>
     (InFlow (one_zooid 1 0 (- 1) unit_params unit_params)) None = Inr ([0, 0], - 11)"
    apply (rule IncidenceFull_one_zooid)
   apply (simp only: one_zooid_fields append.simps system_matrix_one_zooid)
  apply (simp add: ideal_lib_def one_zooid_fields two_node_solver_one_zooid del: One_nat_def)
  done

text \<open>
  Two runs in which the library reports a failure and the method returns as if
  nothing had happened: the solve of the colony closed to the outside, where the
  solver breaks down on the singular matrix (flag \<open>-11\<close>) and its vector does not
  satisfy the system, and an integration in which the integrator gives back its
  initial value and reports no success.
\<close>

theorem failures_return_normally:
  "\<exists>L sols params y.
     fst (solvecolony ideal_lib False False no_kwargs
            (one_zooid 1 0 (- 1) unit_params unit_params)) = Inr sols \<and>
     system_matrix (sol_IncidenceFull sols) (sol_conductivityfull sols) = Inr L \<and>
     bicgstab ideal_lib L (InFlow (one_zooid 1 0 (- 1) unit_params unit_params)) None =
       Inr (sol_Pressures sols, - 11) \<and>
     sp_matvec L (sol_Pressures sols) \<noteq>
       Inr (InFlow (one_zooid 1 0 (- 1) unit_params unit_params)) \<and>
     solvecolony stalled_lib False False no_kwargs
       (one_zooid 1 (1 / 2) (- 1) unit_params unit_params) =
       (Inr params, one_zooid 1 (1 / 2) (- 1) unit_params unit_params) \<and>
     ode_integrate stalled_lib
       (dlnCdt stalled_lib (one_zooid 1 (1 / 2) (- 1) unit_params unit_params) params)
       (map (np_log stalled_lib) (sol_conductivityfull params)) 0 1 = Inr (y, False) \<and>
     UpdateColony stalled_lib 1 (one_zooid 1 (1 / 2) (- 1) unit_params unit_params) =
       (Inr (map (np_exp stalled_lib) y), one_zooid 1 (1 / 2) (- 1) unit_params unit_params)"
proof -
  define L where "L = \<lparr>nrows = 2, ncols = 2,
          entries = [(0, 0, 1), (0, 1, - 1), (0, 0, 1), (0, 1, - 1),
                     (1, 0, - 1), (1, 1, 1), (1, 0, - 1), (1, 1, 1),
                     (0, 0, 0), (1, 1, 0 :: real)]\<rparr>"
  define A where "A = \<lparr>nrows = 4, ncols = 2,
          entries = [(0, 0, - 1), (1, 0, - 1), (0, 1, 1), (1, 1, 1), (2, 0, - 1),
                     (3, 1, - 1 :: real)]\<rparr>"
  define c0 where "c0 = one_zooid 1 0 (- 1) unit_params unit_params"
  define c2 where "c2 = one_zooid 1 (1 / 2) (- 1) unit_params unit_params"
  define sols where "sols = \<lparr>sol_Pressures = [0, 0],
      sol_conductivityfull = InnerConduits c0 @ OutflowConduits c0,
      sol_IncidenceFull = A, sol_Flows = None, sol_S = None, sol_dCdt = None\<rparr>"
  define params where "params = \<lparr>sol_Pressures = [- 2, - 2],
      sol_conductivityfull = InnerConduits c2 @ OutflowConduits c2,
      sol_IncidenceFull = A, sol_Flows = None, sol_S = None, sol_dCdt = None\<rparr>"
  have s0: "solvecolony ideal_lib False False no_kwargs c0 = (Inr sols, c0)"
    using reference_solve [OF closed_run] by (simp only: c0_def sols_def A_def)
  have 1: "fst (solvecolony ideal_lib False False no_kwargs c0) = Inr sols"
    by (simp only: s0 fst_conv)
  have 2: "system_matrix (sol_IncidenceFull sols) (sol_conductivityfull sols) = Inr L"
    using closed_run(2) by (simp only: sols_def networksols.simps c0_def A_def L_def)
  have 3: "bicgstab ideal_lib L (InFlow c0) None = Inr (sol_Pressures sols, - 11)"
    using closed_run(3) by (simp only: sols_def networksols.simps c0_def L_def)
  have 4: "sp_matvec L (sol_Pressures sols) \<noteq> Inr (InFlow c0)"
    unfolding sols_def networksols.simps c0_def L_def one_zooid_fields
    by (rule closed_system_unsolvable)
  have 5: "solvecolony stalled_lib False False no_kwargs c2 = (Inr params, c2)"
    using reference_solve [OF stalled_run_half]
    by (simp only: c2_def params_def A_def)
  have 6: "ode_integrate stalled_lib (dlnCdt stalled_lib c2 params)
       (map (np_log stalled_lib) (sol_conductivityfull params)) 0 1 =
       Inr (map ln [1, 1, 1 / 2, 1 / 2], False)"
    using stalled_int_half [of 1] by (simp only: c2_def params_def A_def networksols.simps)
  have 7: "UpdateColony stalled_lib 1 c2 =
       (Inr (map (np_exp stalled_lib) (map ln [1, 1, 1 / 2, 1 / 2])), c2)"
    by (rule UpdateColony_of_integrator [OF 5 6])
  show ?thesis
    unfolding c0_def [symmetric] c2_def [symmetric]
    apply (rule exI [of _ L])
    apply (rule exI [of _ sols])
    apply (rule exI [of _ params])
    apply (rule exI [of _ "map ln [1, 1, 1 / 2, 1 / 2]"])
    apply (intro conjI)
          apply (rule 1)
         apply (rule 2)
        apply (rule 3)
       apply (rule 4)
      apply (rule 5)
     apply (rule 6)
    apply (rule 7)
    done
qed

section \<open>The pressures during the integration\<close>

lemma ideal_run_half:
  "IncidenceFull_default (one_zooid 1 (1 / 2) (- 1) unit_params unit_params) =
     Inr \<lparr>nrows = 4, ncols = 2,
          entries = [(0, 0, - 1), (1, 0, - 1), (0, 1, 1), (1, 1, 1), (2, 0, - 1), (3, 1, - 1)]\<rparr>"
  "system_matrix \<lparr>nrows = 4, ncols = 2,
          entries = [(0, 0, - 1), (1, 0, - 1), (0, 1, 1), (1, 1, 1), (2, 0, - 1), (3, 1, - 1)]\<rparr>
       (InnerConduits (one_zooid 1 (1 / 2) (- 1) unit_params unit_params) @
        OutflowConduits (one_zooid 1 (1 / 2) (- 1) unit_params unit_params)) =
     Inr \<lparr>nrows = 2, ncols = 2,
          entries = [(0, 0, 1), (0, 1, - 1), (0, 0, 1), (0, 1, - 1),
                     (1, 0, - 1), (1, 1, 1), (1, 0, - 1), (1, 1, 1),
                     (0, 0, 1 / 2), (1, 1, 1 / 2)]\<rparr>"
  "bicgstab ideal_lib \<lparr>nrows = 2, ncols = 2,
          entries = [(0, 0, 1), (0, 1, - 1), (0, 0, 1), (0, 1, - 1),
                     (1, 0, - 1), (1, 1, 1), (1, 0, - 1), (1, 1, 1),
                     (0, 0, 1 / 2), (1, 1, 1 / 2)]\<rparr>
     (InFlow (one_zooid 1 (1 / 2) (- 1) unit_params unit_params)) x0 = Inr ([- 2, - 2], 0)"
    apply (rule IncidenceFull_one_zooid)
   apply (simp only: one_zooid_fields append.simps system_matrix_one_zooid)
  apply (simp add: ideal_lib_def one_zooid_fields two_node_solver_one_zooid del: One_nat_def)
  done

lemma ideal_reference_half:
  "solvecolony ideal_lib False False no_kwargs
     (one_zooid 1 (1 / 2) (- 1) unit_params unit_params) =
   (Inr \<lparr>sol_Pressures = [- 2, - 2], sol_conductivityfull = [1, 1, 1 / 2, 1 / 2],
         sol_IncidenceFull = \<lparr>nrows = 4, ncols = 2,
           entries = [(0, 0, - 1), (1, 0, - 1), (0, 1, 1), (1, 1, 1), (2, 0, - 1), (3, 1, - 1)]\<rparr>,
         sol_Flows = None, sol_S = None, sol_dCdt = None\<rparr>,
    one_zooid 1 (1 / 2) (- 1) unit_params unit_params)"
  using reference_solve [OF ideal_run_half]
  by (simp only: one_zooid_fields append.simps)

lemma ideal_resolve_at_ones:
  "system_matrix \<lparr>nrows = 4, ncols = 2,
          entries = [(0, 0, - 1), (1, 0, - 1), (0, 1, 1), (1, 1, 1), (2, 0, - 1), (3, 1, - 1)]\<rparr>
       [1, 1, 1, 1] =
     Inr \<lparr>nrows = 2, ncols = 2,
          entries = [(0, 0, 1), (0, 1, - 1), (0, 0, 1), (0, 1, - 1),
                     (1, 0, - 1), (1, 1, 1), (1, 0, - 1), (1, 1, 1),
                     (0, 0, 1), (1, 1, 1)]\<rparr>"
  "bicgstab ideal_lib \<lparr>nrows = 2, ncols = 2,
          entries = [(0, 0, 1), (0, 1, - 1), (0, 0, 1), (0, 1, - 1),
                     (1, 0, - 1), (1, 1, 1), (1, 0, - 1), (1, 1, 1),
                     (0, 0, 1), (1, 1, 1)]\<rparr>
     (InFlow (one_zooid 1 (1 / 2) (- 1) unit_params unit_params)) x0 = Inr ([- 1, - 1], 0)"
   apply (rule system_matrix_one_zooid)
  apply (simp add: ideal_lib_def one_zooid_fields two_node_solver_one_zooid del: One_nat_def)
  done

lemma ideal_rhs_at_ones:
  "dlnCdt ideal_lib (one_zooid 1 (1 / 2) (- 1) unit_params unit_params)
     \<lparr>sol_Pressures = [- 2, - 2], sol_conductivityfull = [1, 1, 1 / 2, 1 / 2],
      sol_IncidenceFull = \<lparr>nrows = 4, ncols = 2,
        entries = [(0, 0, - 1), (1, 0, - 1), (0, 1, 1), (1, 1, 1), (2, 0, - 1), (3, 1, - 1)]\<rparr>,
      sol_Flows = None, sol_S = None, sol_dCdt = None\<rparr>
     t [0, 0, 0, 0] = Inr [- 1, - 1, 0, 0]"
proof -
  have "dlnCdt ideal_lib (one_zooid 1 (1 / 2) (- 1) unit_params unit_params)
     \<lparr>sol_Pressures = [- 2, - 2], sol_conductivityfull = [1, 1, 1 / 2, 1 / 2],
      sol_IncidenceFull = \<lparr>nrows = 4, ncols = 2,
        entries = [(0, 0, - 1), (1, 0, - 1), (0, 1, 1), (1, 1, 1), (2, 0, - 1), (3, 1, - 1)]\<rparr>,
      sol_Flows = None, sol_S = None, sol_dCdt = None\<rparr>
     t [0, 0, 0, 0] =
     np_div [\<bar>- 1 - (- 1)\<bar> - 1, \<bar>- 1 - (- 1)\<bar> - 1, \<bar>- 1\<bar> - 1, \<bar>- 1\<bar> - 1] [1, 1, 1, 1]"
  proof (rule dlnCdt_eval)
    show "map (np_exp ideal_lib) [0, 0, 0, 0] = [1, 1, 1, 1]"
      by (simp add: ideal_lib_def)
    show "system_matrix (sol_IncidenceFull
       \<lparr>sol_Pressures = [- 2, - 2], sol_conductivityfull = [1, 1, 1 / 2, 1 / 2],
        sol_IncidenceFull = \<lparr>nrows = 4, ncols = 2,
          entries = [(0, 0, - 1), (1, 0, - 1), (0, 1, 1), (1, 1, 1), (2, 0, - 1), (3, 1, - 1)]\<rparr>,
        sol_Flows = None, sol_S = None, sol_dCdt = None\<rparr>) [1, 1, 1, 1] =
      Inr \<lparr>nrows = 2, ncols = 2,
          entries = [(0, 0, 1), (0, 1, - 1), (0, 0, 1), (0, 1, - 1),
                     (1, 0, - 1), (1, 1, 1), (1, 0, - 1), (1, 1, 1),
                     (0, 0, 1), (1, 1, 1)]\<rparr>"
      by (simp only: networksols.simps ideal_resolve_at_ones)
    show "bicgstab ideal_lib \<lparr>nrows = 2, ncols = 2,
          entries = [(0, 0, 1), (0, 1, - 1), (0, 0, 1), (0, 1, - 1),
                     (1, 0, - 1), (1, 1, 1), (1, 0, - 1), (1, 1, 1),
                     (0, 0, 1), (1, 1, 1)]\<rparr>
        (InFlow (one_zooid 1 (1 / 2) (- 1) unit_params unit_params))
        (Some (sol_Pressures
       \<lparr>sol_Pressures = [- 2, - 2], sol_conductivityfull = [1, 1, 1 / 2, 1 / 2],
        sol_IncidenceFull = \<lparr>nrows = 4, ncols = 2,
          entries = [(0, 0, - 1), (1, 0, - 1), (0, 1, 1), (1, 1, 1), (2, 0, - 1), (3, 1, - 1)]\<rparr>,
        sol_Flows = None, sol_S = None, sol_dCdt = None\<rparr>)) = Inr ([- 1, - 1], 0)"
      by (rule ideal_resolve_at_ones(2))
    show "dCdt_inner (one_zooid 1 (1 / 2) (- 1) unit_params unit_params) =
            Some (\<lambda>x y. dCdt_default (powr) x y unit_params)"
      by (rule one_zooid_fields)
    show "dCdt_outer (one_zooid 1 (1 / 2) (- 1) unit_params unit_params) =
            Some (\<lambda>x y. dCdt_default (powr) x y unit_params)"
      by (rule one_zooid_fields)
    show "feedback_part (one_zooid 1 (1 / 2) (- 1) unit_params unit_params)
       \<lparr>kw_conductivityfull = Some [1, 1, 1, 1],
          kw_IncidenceFull = Some (sol_IncidenceFull
       \<lparr>sol_Pressures = [- 2, - 2], sol_conductivityfull = [1, 1, 1 / 2, 1 / 2],
        sol_IncidenceFull = \<lparr>nrows = 4, ncols = 2,
          entries = [(0, 0, - 1), (1, 0, - 1), (0, 1, 1), (1, 1, 1), (2, 0, - 1), (3, 1, - 1)]\<rparr>,
        sol_Flows = None, sol_S = None, sol_dCdt = None\<rparr>),
          kw_Pressures = Some (sol_Pressures
       \<lparr>sol_Pressures = [- 2, - 2], sol_conductivityfull = [1, 1, 1 / 2, 1 / 2],
        sol_IncidenceFull = \<lparr>nrows = 4, ncols = 2,
          entries = [(0, 0, - 1), (1, 0, - 1), (0, 1, 1), (1, 1, 1), (2, 0, - 1), (3, 1, - 1)]\<rparr>,
        sol_Flows = None, sol_S = None, sol_dCdt = None\<rparr>)\<rparr>
       (sol_IncidenceFull
       \<lparr>sol_Pressures = [- 2, - 2], sol_conductivityfull = [1, 1, 1 / 2, 1 / 2],
        sol_IncidenceFull = \<lparr>nrows = 4, ncols = 2,
          entries = [(0, 0, - 1), (1, 0, - 1), (0, 1, 1), (1, 1, 1), (2, 0, - 1), (3, 1, - 1)]\<rparr>,
        sol_Flows = None, sol_S = None, sol_dCdt = None\<rparr>)
       [- 1, - 1]
       (\<lambda>x y. dCdt_default (powr) x y unit_params) (\<lambda>x y. dCdt_default (powr) x y unit_params)
      = Inr ([\<bar>- 1 - (- 1)\<bar>, \<bar>- 1 - (- 1)\<bar>, \<bar>- 1\<bar>, \<bar>- 1\<bar>],
          [\<bar>- 1 - (- 1)\<bar> - 1, \<bar>- 1 - (- 1)\<bar> - 1, \<bar>- 1\<bar> - 1, \<bar>- 1\<bar> - 1])"
      unfolding networksols.simps
      by (rule feedback_one_zooid_unit [of _ 1 1 1 1]) simp_all
  qed
  then show ?thesis by (simp add: np_div_def np_binop_def)
qed

lemma frozen_rhs_at_ones:
  "dlnCdt_frozen ideal_lib (one_zooid 1 (1 / 2) (- 1) unit_params unit_params)
     \<lparr>sol_Pressures = [- 2, - 2], sol_conductivityfull = [1, 1, 1 / 2, 1 / 2],
      sol_IncidenceFull = \<lparr>nrows = 4, ncols = 2,
        entries = [(0, 0, - 1), (1, 0, - 1), (0, 1, 1), (1, 1, 1), (2, 0, - 1), (3, 1, - 1)]\<rparr>,
      sol_Flows = None, sol_S = None, sol_dCdt = None\<rparr>
     t [0, 0, 0, 0] = Inr [- 1, - 1, 1, 1]"
proof -
  have e: "map (np_exp ideal_lib) [0, 0, 0, 0] = [1, 1, 1, 1]"
    by (simp add: ideal_lib_def)
  have fb: "feedback_part (one_zooid 1 (1 / 2) (- 1) unit_params unit_params)
       \<lparr>kw_conductivityfull = Some [1, 1, 1, 1],
          kw_IncidenceFull = Some \<lparr>nrows = 4, ncols = 2,
          entries = [(0, 0, - 1), (1, 0, - 1), (0, 1, 1), (1, 1, 1), (2, 0, - 1), (3, 1, - 1)]\<rparr>,
          kw_Pressures = Some [- 2, - 2]\<rparr>
       \<lparr>nrows = 4, ncols = 2,
          entries = [(0, 0, - 1), (1, 0, - 1), (0, 1, 1), (1, 1, 1), (2, 0, - 1), (3, 1, - 1)]\<rparr>
       [- 2, - 2]
       (\<lambda>x y. dCdt_default (powr) x y unit_params) (\<lambda>x y. dCdt_default (powr) x y unit_params)
      = Inr ([\<bar>- 2 - (- 2)\<bar>, \<bar>- 2 - (- 2)\<bar>, \<bar>- 2\<bar>, \<bar>- 2\<bar>],
          [\<bar>- 2 - (- 2)\<bar> - 1, \<bar>- 2 - (- 2)\<bar> - 1, \<bar>- 2\<bar> - 1, \<bar>- 2\<bar> - 1])"
    by (rule feedback_one_zooid_unit [of _ 1 1 1 1]) simp_all
  show ?thesis
    unfolding dlnCdt_frozen_def Let_def e networksols.simps one_zooid_fields option.sel fb
    by (simp add: np_div_def np_binop_def)
qed


text \<open>
  On \<open>Colony(nz=1, mz=1, InnerConductivity=1, OutflowConductivity=0.5,
  Incurrents=-1)\<close> the reference pressures are \<open>[-2, -2]\<close>. At the log-conductances
  \<open>[0, 0, 0, 0]\<close> the program's right-hand side is \<open>[-1, -1, 0, 0]\<close>, from the
  pressures \<open>[-1, -1]\<close> of the new solve; with the reference pressures kept it would
  be \<open>[-1, -1, 1, 1]\<close>.
\<close>

theorem rhs_differs_from_frozen:
  "\<exists>params.
     solvecolony ideal_lib False False no_kwargs
       (one_zooid 1 (1 / 2) (- 1) unit_params unit_params) =
       (Inr params, one_zooid 1 (1 / 2) (- 1) unit_params unit_params) \<and>
     sol_Pressures params = [- 2, - 2] \<and>
     dlnCdt ideal_lib (one_zooid 1 (1 / 2) (- 1) unit_params unit_params) params 0
       [0, 0, 0, 0] = Inr [- 1, - 1, 0, 0] \<and>
     dlnCdt_frozen ideal_lib (one_zooid 1 (1 / 2) (- 1) unit_params unit_params) params 0
       [0, 0, 0, 0] = Inr [- 1, - 1, 1, 1] \<and>
     dlnCdt ideal_lib (one_zooid 1 (1 / 2) (- 1) unit_params unit_params) params 0
       [0, 0, 0, 0] \<noteq>
     dlnCdt_frozen ideal_lib (one_zooid 1 (1 / 2) (- 1) unit_params unit_params) params 0
       [0, 0, 0, 0]"
  apply (rule exI [of _ "\<lparr>sol_Pressures = [- 2, - 2], sol_conductivityfull = [1, 1, 1 / 2, 1 / 2],
      sol_IncidenceFull = \<lparr>nrows = 4, ncols = 2,
        entries = [(0, 0, - 1), (1, 0, - 1), (0, 1, 1), (1, 1, 1), (2, 0, - 1), (3, 1, - 1)]\<rparr>,
      sol_Flows = None, sol_S = None, sol_dCdt = None\<rparr>"])
  apply (simp only: ideal_reference_half ideal_rhs_at_ones frozen_rhs_at_ones networksols.simps)
  apply simp
  done

text \<open>
  C6. Every evaluation of the right-hand side \<open>dlnCdt\<close> that returns has solved the
  linear system again: the matrix is formed from the reference incidence matrix and
  the current conductances \<open>exp(lnC)\<close>, \<open>bicgstab\<close> is run on it with the reference
  pressures as nothing more than its starting vector \<open>x0\<close>, and the pressure
  differences handed to the feedback law are those of the vector \<open>bicgstab\<close>
  returns. Only the incidence matrix is reused from the reference solve.
\<close>

theorem rhs_resolves_pressures:
  assumes "dlnCdt lib self params t lnC = Inr d"
  shows "\<exists>L p info S dC.
     system_matrix (sol_IncidenceFull params) (map (np_exp lib) lnC) = Inr L \<and>
     bicgstab lib L (InFlow self) (Some (sol_Pressures params)) = Inr (p, info) \<and>
     feedback_part self
       \<lparr>kw_conductivityfull = Some (map (np_exp lib) lnC),
        kw_IncidenceFull = Some (sol_IncidenceFull params),
        kw_Pressures = Some (sol_Pressures params)\<rparr>
       (sol_IncidenceFull params) p (the (dCdt_inner self)) (the (dCdt_outer self))
       = Inr (S, dC) \<and>
     np_div dC (map (np_exp lib) lnC) = Inr d"
proof -
  define C0 where "C0 = map (np_exp lib) lnC"
  define kw where "kw = \<lparr>kw_conductivityfull = Some C0,
        kw_IncidenceFull = Some (sol_IncidenceFull params),
        kw_Pressures = Some (sol_Pressures params)\<rparr>"
  from assms obtain sols dC where
    sols: "fst (solvecolony lib False True kw self) = Inr sols"
    and dC: "sol_dCdt sols = Some dC"
    and d: "np_div dC C0 = Inr d"
    unfolding dlnCdt_def Let_def C0_def [symmetric] kw_def [symmetric]
    by (auto split: sum.splits option.splits)
  from solvecolony_Inr [OF sols] obtain A L info where
    A: "A = sol_IncidenceFull params"
    and L: "system_matrix A (sol_conductivityfull sols) = Inr L"
    and b: "bicgstab lib L (InFlow self) (kw_Pressures kw) = Inr (sol_Pressures sols, info)"
    and C: "sol_conductivityfull sols = C0"
    and fb: "(if True \<and> dCdt_inner self \<noteq> None \<and> dCdt_outer self \<noteq> None
       then map_sum id (\<lambda>(s, d). (Some s, Some d))
              (feedback_part self kw A (sol_Pressures sols)
                 (the (dCdt_inner self)) (the (dCdt_outer self)))
       else Inr (None, None)) = Inr (sol_S sols, sol_dCdt sols)"
    by (auto simp: kw_def)
  from fb dC obtain S where
    S: "feedback_part self kw A (sol_Pressures sols)
          (the (dCdt_inner self)) (the (dCdt_outer self)) = Inr (S, dC)"
    by (cases "feedback_part self kw A (sol_Pressures sols)
          (the (dCdt_inner self)) (the (dCdt_outer self))")
      (auto split: if_splits)
  have b': "bicgstab lib L (InFlow self) (Some (sol_Pressures params))
              = Inr (sol_Pressures sols, info)"
    using b by (simp add: kw_def)
  show ?thesis
    unfolding C0_def [symmetric] kw_def [symmetric]
    using L b' S d unfolding A C by blast
qed


theorem rhs_resolves_pressures_witness:
  "dlnCdt ideal_lib (one_zooid 1 (1 / 2) (- 1) unit_params unit_params)
     \<lparr>sol_Pressures = [- 2, - 2], sol_conductivityfull = [1, 1, 1 / 2, 1 / 2],
      sol_IncidenceFull = \<lparr>nrows = 4, ncols = 2,
        entries = [(0, 0, - 1), (1, 0, - 1), (0, 1, 1), (1, 1, 1), (2, 0, - 1), (3, 1, - 1)]\<rparr>,
      sol_Flows = None, sol_S = None, sol_dCdt = None\<rparr>
     0 [0, 0, 0, 0] = Inr [- 1, - 1, 0, 0] \<and>
   (\<exists>L p info dC.
      system_matrix \<lparr>nrows = 4, ncols = 2,
        entries = [(0, 0, - 1), (1, 0, - 1), (0, 1, 1), (1, 1, 1), (2, 0, - 1), (3, 1, - 1)]\<rparr>
        [1, 1, 1, 1] = Inr L \<and>
      bicgstab ideal_lib L (InFlow (one_zooid 1 (1 / 2) (- 1) unit_params unit_params))
        (Some [- 2, - 2]) = Inr (p, info) \<and>
      p = [- 1, - 1] \<and>
      np_div dC [1, 1, 1, 1] = Inr [- 1, - 1, 0, 0])"
proof -
  have e: "map (np_exp ideal_lib) [0, 0, 0, 0] = [1, 1, 1, 1]"
    by (simp add: ideal_lib_def)
  from rhs_resolves_pressures [OF ideal_rhs_at_ones [of 0]]
  obtain L p info S dC where
    L: "system_matrix \<lparr>nrows = 4, ncols = 2,
        entries = [(0, 0, - 1), (1, 0, - 1), (0, 1, 1), (1, 1, 1), (2, 0, - 1), (3, 1, - 1)]\<rparr>
        [1, 1, 1, 1] = Inr L"
    and b: "bicgstab ideal_lib L (InFlow (one_zooid 1 (1 / 2) (- 1) unit_params unit_params))
        (Some [- 2, - 2]) = Inr (p, info)"
    and d: "np_div dC [1, 1, 1, 1] = Inr [- 1, - 1, 0, 0]"
    unfolding e networksols.simps by (elim exE conjE) (rule that, assumption+)
  from L have L': "L = \<lparr>nrows = 2, ncols = 2,
          entries = [(0, 0, 1), (0, 1, - 1), (0, 0, 1), (0, 1, - 1),
                     (1, 0, - 1), (1, 1, 1), (1, 0, - 1), (1, 1, 1),
                     (0, 0, 1), (1, 1, 1)]\<rparr>"
    unfolding ideal_resolve_at_ones(1) by simp
  from b have p: "p = [- 1, - 1]"
    unfolding L' ideal_resolve_at_ones(2) by simp
  show ?thesis
    apply (rule conjI)
     apply (rule ideal_rhs_at_ones)
    apply (rule exI [of _ L])
    apply (rule exI [of _ p])
    apply (rule exI [of _ info])
    apply (rule exI [of _ dC])
    apply (intro conjI)
       apply (rule L)
      apply (rule b)
     apply (rule p)
    apply (rule d)
    done
qed

end
